theory Spec2Isabelle
  imports Complex_Main "HOL-Library.Log_Nat" "HOL-Library.Char_ord" "HOL-Library.List_Lexorder"
begin

section \<open>Python strings\<close>

text \<open>
  A Python \<open>str\<close> is modelled by its UTF-8 bytes, an Isabelle \<open>string\<close>. Substring
  search and comparison on the bytes agree with Python's on code points. Whitespace and
  letter case are modelled for the ASCII range: \<open>str.strip\<close> removes the ASCII
  characters for which \<open>str.isspace\<close> holds, \<open>str.lower\<close> maps \<open>A-Z\<close> to \<open>a-z\<close>.
\<close>

definition py_isspace :: "char \<Rightarrow> bool" where
  "py_isspace c = (c \<in> set [CHR 0x09, CHR 0x0A, CHR 0x0B, CHR 0x0C, CHR 0x0D,
                             CHR 0x1C, CHR 0x1D, CHR 0x1E, CHR 0x1F, CHR 0x20])"

definition strip :: "string \<Rightarrow> string" where
  "strip s = rev (dropWhile py_isspace (rev (dropWhile py_isspace s)))"

definition lower_char :: "char \<Rightarrow> char" where
  "lower_char c = (case map_of (zip ''ABCDEFGHIJKLMNOPQRSTUVWXYZ'' ''abcdefghijklmnopqrstuvwxyz'') c of
                     Some d \<Rightarrow> d | None \<Rightarrow> c)"

definition lower :: "string \<Rightarrow> string" where
  "lower s = map lower_char s"

text \<open>\<open>s.replace(c, '')\<close> for a one-character \<open>c\<close>.\<close>

definition remove_char :: "char \<Rightarrow> string \<Rightarrow> string" where
  "remove_char c s = filter (\<lambda>x. x \<noteq> c) s"

definition starts_with :: "string \<Rightarrow> string \<Rightarrow> bool" where
  "starts_with sub s = (take (length sub) s = sub)"

text \<open>\<open>contains sub s\<close> is Python's \<open>sub in s\<close>.\<close>

fun contains :: "string \<Rightarrow> string \<Rightarrow> bool" where
  "contains sub [] = (sub = [])"
| "contains sub (c # cs) = (starts_with sub (c # cs) \<or> contains sub cs)"

definition digit_table :: "(char \<times> int) list" where
  "digit_table = [(CHR ''0'', 0), (CHR ''1'', 1), (CHR ''2'', 2), (CHR ''3'', 3), (CHR ''4'', 4),
                  (CHR ''5'', 5), (CHR ''6'', 6), (CHR ''7'', 7), (CHR ''8'', 8), (CHR ''9'', 9)]"

definition is_digit :: "char \<Rightarrow> bool" where
  "is_digit c = (map_of digit_table c \<noteq> None)"

definition digit_val :: "char \<Rightarrow> int" where
  "digit_val c = (case map_of digit_table c of Some d \<Rightarrow> d | None \<Rightarrow> 0)"

definition digit_char :: "nat \<Rightarrow> char" where
  "digit_char d = ''0123456789'' ! d"

fun str_of_nat :: "nat \<Rightarrow> string" where
  "str_of_nat n = (if n < 10 then [digit_char n] else str_of_nat (n div 10) @ [digit_char (n mod 10)])"

definition str_of_int :: "int \<Rightarrow> string" where
  "str_of_int i = (if i < 0 then CHR ''-'' # str_of_nat (nat (- i)) else str_of_nat (nat i))"

section \<open>Python values\<close>

datatype py_error = ValueError | OverflowError | TypeError | KeyError

text \<open>
  The values a DataFrame or worksheet cell holds in this program: a \<open>str\<close>, an \<open>int\<close>,
  or the float \<open>nan\<close> that pandas puts where a record has no value for a column.
\<close>

datatype cell = Str string | Num int | Nan

fun py_str :: "cell \<Rightarrow> string" where
  "py_str (Str s) = s"
| "py_str (Num i) = str_of_int i"
| "py_str Nan = ''nan''"

fun notna :: "cell \<Rightarrow> bool" where
  "notna Nan = False"
| "notna _ = True"

section \<open>Binary64 floating point\<close>

text \<open>
  A Python \<open>float\<close> is an IEEE 754 binary64 number. A finite one is modelled by the
  rational it denotes (the sign of zero is not kept: nothing in this program reads it).
  \<open>round_double\<close> rounds a rational to the nearest binary64 number, ties to even, as
  \<open>float(str)\<close>, \<open>float(int)\<close> and \<open>*\<close> do; a result of magnitude \<open>2^1024\<close> or more
  is an infinity.
\<close>

datatype double = Finite rat | PosInf | NegInf | NotANumber

definition rne :: "rat \<Rightarrow> int" where
  "rne q = (let f = \<lfloor>q\<rfloor>; r = q - of_int f in
     if r < 1/2 then f else if 1/2 < r then f + 1 else if even f then f else f + 1)"

text \<open>\<open>ilog2 q\<close> is \<open>\<lfloor>log\<^sub>2 q\<rfloor>\<close> for \<open>q > 0\<close>.\<close>

definition ilog2 :: "rat \<Rightarrow> int" where
  "ilog2 q = (let (n, d) = quotient_of q; e = bitlen n - bitlen d in
     if 2 powi e \<le> q then e else e - 1)"

definition round_double :: "rat \<Rightarrow> double" where
  "round_double x = (if x = 0 then Finite 0 else
     let e = max (ilog2 \<bar>x\<bar>) (- 1022);
         u = 2 powi (e - 52);
         r = of_int (rne (x / u)) * u
     in if 2 powi 1024 \<le> \<bar>r\<bar> then (if 0 < x then PosInf else NegInf) else Finite r)"

text \<open>\<open>float(i)\<close> for an \<open>int\<close>, also the conversion \<open>i * 0.5\<close> applies to \<open>i\<close>.\<close>

definition float_of_int :: "int \<Rightarrow> py_error + double" where
  "float_of_int i = (case round_double (of_int i) of Finite r \<Rightarrow> Inr (Finite r) | _ \<Rightarrow> Inl OverflowError)"

fun float_mul :: "double \<Rightarrow> double \<Rightarrow> double" where
  "float_mul (Finite a) (Finite b) = round_double (a * b)"
| "float_mul NotANumber _ = NotANumber"
| "float_mul _ NotANumber = NotANumber"
| "float_mul (Finite a) PosInf = (if a = 0 then NotANumber else if 0 < a then PosInf else NegInf)"
| "float_mul (Finite a) NegInf = (if a = 0 then NotANumber else if 0 < a then NegInf else PosInf)"
| "float_mul PosInf (Finite b) = (if b = 0 then NotANumber else if 0 < b then PosInf else NegInf)"
| "float_mul NegInf (Finite b) = (if b = 0 then NotANumber else if 0 < b then NegInf else PosInf)"
| "float_mul PosInf PosInf = PosInf"
| "float_mul PosInf NegInf = NegInf"
| "float_mul NegInf PosInf = NegInf"
| "float_mul NegInf NegInf = PosInf"

text \<open>\<open>int(x)\<close> for a \<open>float\<close>: truncation toward zero.\<close>

definition trunc_zero :: "rat \<Rightarrow> int" where
  "trunc_zero r = (if 0 \<le> r then \<lfloor>r\<rfloor> else \<lceil>r\<rceil>)"

fun int_of_float :: "double \<Rightarrow> py_error + int" where
  "int_of_float (Finite r) = Inr (trunc_zero r)"
| "int_of_float PosInf = Inl OverflowError"
| "int_of_float NegInf = Inl OverflowError"
| "int_of_float NotANumber = Inl ValueError"

section \<open>Parsing numbers: \<open>float(str)\<close> and \<open>int(str)\<close>\<close>

text \<open>
  Both strip the C whitespace characters first. The grammar is Python's, for ASCII
  digits: an optional sign, then \<open>inf\<close>, \<open>infinity\<close> or \<open>nan\<close> in any letter case, or
  digits with an optional point and exponent; one underscore may stand between two
  digits.
\<close>

definition c_isspace :: "char \<Rightarrow> bool" where
  "c_isspace c = (c \<in> set [CHR 0x09, CHR 0x0A, CHR 0x0B, CHR 0x0C, CHR 0x0D, CHR 0x20])"

definition c_strip :: "string \<Rightarrow> string" where
  "c_strip s = rev (dropWhile c_isspace (rev (dropWhile c_isspace s)))"

fun digitpart :: "string \<Rightarrow> bool" where
  "digitpart [] = False"
| "digitpart [c] = is_digit c"
| "digitpart (c # d # cs) = (is_digit c \<and> (if d = CHR ''_'' then digitpart cs else digitpart (d # cs)))"

definition digits_value :: "string \<Rightarrow> int" where
  "digits_value s = foldl (\<lambda>a c. 10 * a + digit_val c) 0 (filter is_digit s)"

definition parse_sign :: "string \<Rightarrow> int \<times> string" where
  "parse_sign s = (case s of [] \<Rightarrow> (1, s)
     | c # r \<Rightarrow> if c = CHR ''-'' then (- 1, r) else if c = CHR ''+'' then (1, r) else (1, s))"

definition split_first :: "(char \<Rightarrow> bool) \<Rightarrow> string \<Rightarrow> string \<times> string option" where
  "split_first P s = (case dropWhile (\<lambda>c. \<not> P c) s of
       [] \<Rightarrow> (s, None)
     | _ # r \<Rightarrow> (takeWhile (\<lambda>c. \<not> P c) s, Some r))"

text \<open>A number \<open>m \<times> 10^e\<close>, as the pair \<open>(m, e)\<close>.\<close>

definition parse_number :: "string \<Rightarrow> (int \<times> int) option" where
  "parse_number s =
    (let (ms, es) = split_first (\<lambda>c. c = CHR ''e'' \<or> c = CHR ''E'') s;
         (ip, fp) = split_first (\<lambda>c. c = CHR ''.'') ms;
         frac = (case fp of None \<Rightarrow> [] | Some f \<Rightarrow> f);
         mant_ok = (case fp of None \<Rightarrow> digitpart ip
                    | Some f \<Rightarrow> (digitpart ip \<and> (f = [] \<or> digitpart f)) \<or> (ip = [] \<and> digitpart f));
         ex = (case es of None \<Rightarrow> Some 0
               | Some e \<Rightarrow> (let (sg, d) = parse_sign e in
                            if digitpart d then Some (sg * digits_value d) else None))
     in if mant_ok
        then (case ex of None \<Rightarrow> None
              | Some x \<Rightarrow> Some (digits_value (ip @ frac), x - int (length (filter is_digit frac))))
        else None)"

definition py_float :: "string \<Rightarrow> py_error + double" where
  "py_float s =
    (let (sg, r) = parse_sign (c_strip s); l = lower r in
     if l = ''inf'' \<or> l = ''infinity'' then Inr (if sg < 0 then NegInf else PosInf)
     else if l = ''nan'' then Inr NotANumber
     else case parse_number r of
            None \<Rightarrow> Inl ValueError
          | Some (m, e) \<Rightarrow> Inr (round_double (of_int (sg * m) * 10 powi e)))"

definition py_int :: "string \<Rightarrow> py_error + int" where
  "py_int s =
    (let (sg, r) = parse_sign (c_strip s) in
     if digitpart r then Inr (sg * digits_value r) else Inl ValueError)"

subsection \<open>Facts about rounding\<close>

lemma rne_of_int: "rne (of_int n) = n"
  by (simp add: rne_def)

lemma rne_upper: "of_int (rne q) \<le> q + 1/2"
  unfolding rne_def Let_def by (auto; linarith)

lemma rne_lower: "q - 1/2 \<le> of_int (rne q)"
  unfolding rne_def Let_def by (auto; linarith)

lemma rne_eqI:
  assumes "of_int n - 1/2 < q" "q < of_int n + 1/2"
  shows "rne q = n"
proof -
  have "q - 1/2 \<le> of_int (rne q)" by (rule rne_lower)
  then have "(of_int (n - 1) :: rat) < of_int (rne q)" using assms(1) by simp
  then have 1: "n - 1 < rne q" by (simp only: of_int_less_iff)
  have "of_int (rne q) \<le> q + 1/2" by (rule rne_upper)
  then have "(of_int (rne q) :: rat) < of_int (n + 1)" using assms(2) by simp
  then have 2: "rne q < n + 1" by (simp only: of_int_less_iff)
  from 1 2 show ?thesis by linarith
qed

lemma bitlen_rat_bounds:
  assumes "0 < n"
  shows "(2::rat) powi (bitlen n - 1) \<le> of_int n" "(of_int n :: rat) < 2 powi (bitlen n)"
proof -
  have b: "1 \<le> bitlen n"
    using assms bitlen_eq_zero_iff[of n] bitlen_nonneg[of n] by linarith
  have "(2::int) ^ nat (bitlen n - 1) \<le> n" "n < 2 ^ nat (bitlen n)"
    using bitlen_bounds[OF assms] by auto
  then have "(of_int ((2::int) ^ nat (bitlen n - 1)) :: rat) \<le> of_int n"
       "(of_int n :: rat) < of_int (2 ^ nat (bitlen n))"
    by (simp_all only: of_int_le_iff of_int_less_iff)
  then show "(2::rat) powi (bitlen n - 1) \<le> of_int n" "(of_int n :: rat) < 2 powi (bitlen n)"
    using b by (simp_all add: power_int_nonneg_exp)
qed

lemma ilog2_bounds:
  assumes "0 < q"
  shows "2 powi (ilog2 q) \<le> q \<and> q < 2 powi (ilog2 q + 1)"
proof -
  obtain n d where nd: "quotient_of q = (n, d)" by (cases "quotient_of q")
  have d: "0 < d" using nd quotient_of_denom_pos by blast
  have q: "q = of_int n / of_int d" using nd quotient_of_div by blast
  have n: "0 < n" using assms d q by (simp add: zero_less_divide_iff)
  define e where "e = bitlen n - bitlen d"
  note bn = bitlen_rat_bounds[OF n] and bd = bitlen_rat_bounds[OF d]
  have dpos: "(0::rat) < of_int d" using d by simp
  have "(2::rat) powi (e + 1) * 2 powi (bitlen d - 1) = 2 powi (bitlen n)"
    by (simp add: e_def power_int_add[symmetric])
  moreover have "(2::rat) powi (e + 1) * 2 powi (bitlen d - 1) \<le> 2 powi (e + 1) * of_int d"
    using bd(1) by (intro mult_left_mono) simp_all
  ultimately have A: "of_int n < 2 powi (e + 1) * (of_int d :: rat)"
    using bn(2) by linarith
  have "(2::rat) powi (e - 1) * 2 powi (bitlen d) = 2 powi (bitlen n - 1)"
    by (simp add: e_def power_int_add[symmetric])
  moreover have "(2::rat) powi (e - 1) * of_int d < 2 powi (e - 1) * 2 powi (bitlen d)"
    using bd(2) by (intro mult_strict_left_mono) simp_all
  ultimately have B: "2 powi (e - 1) * (of_int d :: rat) < of_int n"
    using bn(1) by linarith
  have up: "q < 2 powi (e + 1)"
    unfolding q using A dpos by (simp add: pos_divide_less_eq)
  have lo: "2 powi (e - 1) < q"
    unfolding q using B dpos by (simp add: pos_less_divide_eq)
  have il: "ilog2 q = (if 2 powi e \<le> q then e else e - 1)"
    by (simp add: ilog2_def nd e_def)
  show ?thesis
  proof (cases "2 powi e \<le> q")
    case True
    then show ?thesis using il up by simp
  next
    case False
    then show ?thesis using il lo by simp
  qed
qed

lemma pow2_less_imp: "(2::rat) powi a < 2 powi b \<Longrightarrow> a < b"
proof (rule ccontr)
  assume h: "(2::rat) powi a < 2 powi b" and "\<not> a < b"
  then have "b \<le> a" by simp
  then have "(2::rat) powi b \<le> 2 powi a" by (intro power_int_increasing) simp_all
  with h show False by simp
qed

lemma ilog2_unique:
  assumes "2 powi e \<le> q" "q < 2 powi (e + 1)"
  shows "ilog2 q = e"
proof -
  have "(0::rat) < 2 powi e" by simp
  then have q: "0 < q" using assms(1) by linarith
  note b = ilog2_bounds[OF q]
  have "(2::rat) powi e < 2 powi (ilog2 q + 1)" using assms(1) b by linarith
  then have 1: "e < ilog2 q + 1" by (rule pow2_less_imp)
  have "(2::rat) powi (ilog2 q) < 2 powi (e + 1)" using assms(2) b by linarith
  then have 2: "ilog2 q < e + 1" by (rule pow2_less_imp)
  from 1 2 show ?thesis by linarith
qed

text \<open>A number in a binade \<open>[2^e, 2^(e+1))\<close> of the normal range rounds on the grid of step \<open>2^(e-52)\<close>.\<close>

lemma round_double_normal:
  assumes lo: "2 powi e \<le> \<bar>x\<bar>" and hi: "\<bar>x\<bar> < 2 powi (e + 1)"
      and e: "- 1022 \<le> e" "e \<le> 1022"
  shows "round_double x = Finite (of_int (rne (x * 2 powi (52 - e))) * 2 powi (e - 52))"
proof -
  have x0: "x \<noteq> 0"
  proof
    assume "x = 0"
    then have "(2::rat) powi e \<le> 0" using lo by simp
    moreover have "(0::rat) < 2 powi e" by simp
    ultimately show False by linarith
  qed
  have il: "ilog2 \<bar>x\<bar> = e" using lo hi by (rule ilog2_unique)
  have inv: "x / 2 powi (e - 52) = x * 2 powi (52 - e)"
    using power_int_minus[of "2::rat" "e - 52"] by (simp add: field_simps)
  define y where "y = x * 2 powi (52 - e)"
  have ya: "\<bar>y\<bar> < 2 ^ 53"
  proof -
    have "\<bar>y\<bar> = \<bar>x\<bar> * 2 powi (52 - e)" by (simp add: y_def abs_mult)
    also have "\<dots> < 2 powi (e + 1) * 2 powi (52 - e)"
      using hi by (intro mult_strict_right_mono) simp_all
    also have "\<dots> = 2 powi 53" by (simp add: power_int_add[symmetric])
    finally show ?thesis by simp
  qed
  have ra: "\<bar>of_int (rne y) :: rat\<bar> \<le> 2 ^ 53"
  proof -
    have 1: "of_int (rne y) \<le> y + 1/2" by (rule rne_upper)
    have 2: "y - 1/2 \<le> of_int (rne y)" by (rule rne_lower)
    have "(of_int (rne y) :: rat) < 2 ^ 53 + 1" using 1 ya by linarith
    then have "(of_int (rne y) :: rat) < of_int (2 ^ 53 + 1)" by simp
    then have a: "rne y < 2 ^ 53 + 1" by (simp only: of_int_less_iff)
    have "- (2 ^ 53) - 1 < (of_int (rne y) :: rat)" using 2 ya by linarith
    then have "(of_int (- (2 ^ 53) - 1) :: rat) < of_int (rne y)" by simp
    then have b: "- (2 ^ 53) - 1 < rne y" by (simp only: of_int_less_iff)
    from a b have "\<bar>rne y\<bar> \<le> 2 ^ 53" by linarith
    then have "(of_int \<bar>rne y\<bar> :: rat) \<le> of_int (2 ^ 53)" by (simp only: of_int_le_iff)
    then show ?thesis by simp
  qed
  define r where "r = of_int (rne y) * (2::rat) powi (e - 52)"
  have "\<bar>r\<bar> = \<bar>of_int (rne y) :: rat\<bar> * 2 powi (e - 52)" by (simp add: r_def abs_mult)
  also have "\<dots> \<le> 2 ^ 53 * 2 powi (e - 52)"
    using ra by (intro mult_right_mono) simp_all
  also have "\<dots> = 2 powi (e + 1)"
  proof -
    have "(2::rat) powi 53 * 2 powi (e - 52) = 2 powi (53 + (e - 52))"
      by (rule power_int_add[symmetric]) simp
    moreover have "53 + (e - 52) = e + 1" by simp
    ultimately show ?thesis by simp
  qed
  also have "\<dots> < 2 powi 1024" using e by (intro power_int_strict_increasing) simp_all
  finally have fin: "\<not> 2 powi 1024 \<le> \<bar>r\<bar>" by simp
  have mx: "max e (- 1022) = e" using e by simp
  show ?thesis
    unfolding round_double_def using x0 fin
    by (simp add: il mx inv Let_def r_def y_def)
qed

lemma round_double_of_int:
  assumes "\<bar>n\<bar> < 2 ^ 53"
  shows "round_double (of_int n) = Finite (of_int n)"
proof (cases "n = 0")
  case True
  then show ?thesis by (simp add: round_double_def)
next
  case False
  define x :: rat where "x = of_int n"
  have xpos: "0 < \<bar>x\<bar>" using False by (simp add: x_def)
  define e where "e = ilog2 \<bar>x\<bar>"
  have b: "2 powi e \<le> \<bar>x\<bar>" "\<bar>x\<bar> < 2 powi (e + 1)"
    using ilog2_bounds[OF xpos] by (simp_all add: e_def)
  have "(1::rat) \<le> \<bar>x\<bar>"
  proof -
    have "1 \<le> \<bar>n\<bar>" using False by linarith
    then have "(of_int 1 :: rat) \<le> of_int \<bar>n\<bar>" by (simp only: of_int_le_iff)
    then show ?thesis by (simp add: x_def)
  qed
  then have "(2::rat) powi (- 1 + 1) \<le> \<bar>x\<bar>" by simp
  then have "(2::rat) powi (- 1 + 1) < 2 powi (e + 1)" using b(2) by linarith
  then have "- 1 + 1 < e + 1" by (rule pow2_less_imp)
  then have e0: "0 \<le> e" by linarith
  have "(of_int \<bar>n\<bar> :: rat) < of_int (2 ^ 53)" using assms by (simp only: of_int_less_iff)
  then have "\<bar>x\<bar> < 2 powi 53" by (simp add: x_def)
  then have "(2::rat) powi e < 2 powi 53" using b(1) by linarith
  then have e52: "e < 53" by (rule pow2_less_imp)
  have eq: "(2::rat) powi (52 - e) = of_int (2 ^ nat (52 - e))"
    using e52 by (simp add: power_int_nonneg_exp)
  have "x * 2 powi (52 - e) = of_int (n * 2 ^ nat (52 - e))"
    by (simp add: eq x_def)
  then have "rne (x * 2 powi (52 - e)) = n * 2 ^ nat (52 - e)"
    by (simp only: rne_of_int)
  then have "of_int (rne (x * 2 powi (52 - e))) * 2 powi (e - 52)
             = x * (2 powi (52 - e) * 2 powi (e - 52))"
    by (simp add: eq x_def)
  also have "\<dots> = x" by (simp add: power_int_add[symmetric])
  finally have "round_double x = Finite x"
    using round_double_normal[OF b] e0 e52 by simp
  then show ?thesis by (simp add: x_def)
qed

definition min_bid_rate :: double where
  "min_bid_rate = round_double (87745 / 100000)"

lemma rne_rate: "rne (87745 / 100000 * 2 powi 53) = 7903366986072483"
  by (rule rne_eqI) simp_all

lemma min_bid_rate_val: "min_bid_rate = Finite (7903366986072483 / 9007199254740992)"
proof -
  have "round_double (87745 / 100000) =
        Finite (of_int (rne (87745 / 100000 * 2 powi (52 - (- 1)))) * 2 powi (- 1 - 52))"
    by (rule round_double_normal) simp_all
  then show ?thesis
    using rne_rate by (simp add: min_bid_rate_def)
qed

lemma rate_product:
  fixes b :: int
  assumes bpos: "0 < b" and bmax: "b < 1253076105051"
  shows "\<exists>r. round_double (of_int b * (7903366986072483 / 9007199254740992)) = Finite r
             \<and> 0 \<le> r \<and> \<lfloor>r\<rfloor> = (b * 87745) div 100000"
proof -
  define c :: rat where "c = 7903366986072483 / 9007199254740992"
  define bq :: rat where "bq = of_int b"
  define x where "x = bq * c"
  have bq1: "1 \<le> bq"
  proof -
    have "1 \<le> b" using bpos by linarith
    then have "(of_int 1 :: rat) \<le> of_int b" by (simp only: of_int_le_iff)
    then show ?thesis by (simp add: bq_def)
  qed
  have bqmax: "bq < 1253076105051"
  proof -
    have "(of_int b :: rat) < of_int 1253076105051" using bmax by (simp only: of_int_less_iff)
    then show ?thesis by (simp add: bq_def)
  qed
  have xc: "x = bq * (7903366986072483 / 9007199254740992)" by (simp add: x_def c_def)
  have xm: "9007199254740992 * x = bq * 7903366986072483" by (simp add: xc)
  have xlo: "1 / 2 \<le> x" using bq1 xm by linarith
  have xhi: "x < 2199023255552" using bqmax xm by linarith
  have xpos: "0 < x" using xlo by linarith
  have ax: "\<bar>x\<bar> = x" using xpos by simp
  define e where "e = ilog2 \<bar>x\<bar>"
  have b1: "2 powi e \<le> x" and b2: "x < 2 powi (e + 1)"
    using ilog2_bounds[of "\<bar>x\<bar>"] xpos by (simp_all add: e_def ax)
  have "(2::rat) powi (- 1) \<le> x" using xlo by simp
  then have "(2::rat) powi (- 1) < 2 powi (e + 1)" using b2 by linarith
  then have "- 1 < e + 1" by (rule pow2_less_imp)
  then have elo: "- 1 \<le> e" by linarith
  have "x < 2 powi 41" using xhi by simp
  then have "(2::rat) powi e < 2 powi 41" using b1 by linarith
  then have ehi: "e < 41" by (rule pow2_less_imp)
  define k where "k = nat (52 - e)"
  define D :: rat where "D = 2 powi (52 - e)"
  define p :: rat where "p = 2 powi e"
  have Dk: "D = of_int (2 ^ k)" using ehi by (simp add: D_def k_def power_int_nonneg_exp)
  have Dpos: "0 < D" by (simp add: D_def)
  have ppos: "0 < p" by (simp add: p_def)
  have Dp: "D * p = 4503599627370496"
  proof -
    have "(2::rat) powi (52 - e) * 2 powi e = 2 powi (52 - e + e)"
      by (rule power_int_add[symmetric]) simp
    then show ?thesis by (simp add: D_def p_def)
  qed
  then have Ddiv: "D = 4503599627370496 / p" using ppos by (simp add: field_simps)
  have Dinv: "(2::rat) powi (e - 52) = 1 / D"
    using power_int_minus[of "2::rat" "52 - e"] by (simp add: D_def field_simps)
  have x2p: "x < 2 * p"
  proof -
    have "(2::rat) powi (e + 1) = 2 powi e * 2 powi 1"
      by (rule power_int_add) simp
    then show ?thesis using b2 by (simp add: p_def)
  qed
  define n where "n = (b * 87745) div 100000"
  define t where "t = b * 17549"
  have nt: "n = t div 20000"
  proof -
    have "(5 * t) div (5 * 20000) = t div 20000" by (rule div_mult_mult1) simp
    moreover have "b * 87745 = 5 * t" by (simp add: t_def)
    ultimately show ?thesis by (simp add: n_def)
  qed
  have t1: "20000 * n \<le> t" and t2: "t \<le> 20000 * n + 19999"
  proof -
    have "t = 20000 * (t div 20000) + t mod 20000" by simp
    moreover have "0 \<le> t mod 20000" "t mod 20000 < 20000" by simp_all
    ultimately show "20000 * n \<le> t" "t \<le> 20000 * n + 19999" unfolding nt by linarith+
  qed
  define nq :: rat where "nq = of_int n"
  have tq: "(of_int t :: rat) = bq * 17549" by (simp add: t_def bq_def)
  have r1: "20000 * nq \<le> bq * 17549"
  proof -
    have "(of_int (20000 * n) :: rat) \<le> of_int t" using t1 by (simp only: of_int_le_iff)
    then show ?thesis by (simp add: nq_def tq)
  qed
  have r2: "bq * 17549 \<le> 20000 * nq + 19999"
  proof -
    have "(of_int t :: rat) \<le> of_int (20000 * n + 19999)" using t2 by (simp only: of_int_le_iff)
    then show ?thesis by (simp add: nq_def tq)
  qed
  define y where "y = x * D"
  have g1: "(nq - x) * D < 1 / 2"
  proof -
    have "nq * 9007199254740992 - x * 9007199254740992 < p"
      using r1 x2p bq1 xm by linarith
    then have "(nq - x) * 4503599627370496 / p < 1 / 2"
      using ppos by (simp add: field_simps)
    then show ?thesis by (simp add: Ddiv)
  qed
  have g2: "1 / 2 < (nq + 1 - x) * D"
  proof (cases "e \<le> 38")
    case True
    then have "(2::rat) powi 14 \<le> 2 powi (52 - e)"
      by (intro power_int_increasing) simp_all
    then have D14: "16384 \<le> D" by (simp add: D_def)
    have a: "1 / 20000 \<le> nq + 1 - x"
      using r2 bq1 xm by linarith
    have "1 / 20000 * 16384 \<le> (nq + 1 - x) * D"
      using a D14 by (intro mult_mono) simp_all
    then show ?thesis by linarith
  next
    case False
    show ?thesis
    proof (cases "e = 39")
      case True
      have D13: "D = 8192" by (simp add: D_def True)
      have "549755813888 \<le> x" using b1 by (simp add: True)
      then have "1 / 2 < nq * 8192 + 8192 - x * 8192"
        using r2 xm by linarith
      then show ?thesis by (simp add: D13 algebra_simps)
    next
      case e39: False
      then have e40: "e = 40" using \<open>\<not> e \<le> 38\<close> ehi by linarith
      have D12: "D = 4096" by (simp add: D_def e40)
      have x40: "1099511627776 \<le> x" using b1 by (simp add: e40)
      have "(of_int (9903520314283042199192993792 :: int) :: rat) \<le> of_int (b * 7903366986072483)"
        using x40 xm by (simp add: bq_def)
      then have "9903520314283042199192993792 \<le> b * 7903366986072483"
        by (simp only: of_int_le_iff)
      then have blo: "1253076104367 \<le> b" by linarith
      have "t mod 20000 \<noteq> 19999"
      proof
        assume "t mod 20000 = 19999"
        then have "t = 20000 * (t div 20000) + 19999"
          using mult_div_mod_eq[of 20000 t] by linarith
        then have tb: "b * 17549 = 20000 * (t div 20000) + 19999"
          by (simp add: t_def)
        define K where "K = 14949 * (t div 20000) - 13117 * b + 14948"
        have h: "262340001 * b = 298980000 * (t div 20000) + 298965051"
          using tb by linarith
        have "20000 * K = 298980000 * (t div 20000) - 262340000 * b + 298960000"
          by (simp add: K_def algebra_simps)
        then have "b = 20000 * K + 5051" using h by linarith
        then show False using blo bmax by (cases "K \<le> 62653804") linarith+
      qed
      moreover have "t = 20000 * (t div 20000) + t mod 20000" by simp
      moreover have "t mod 20000 < 20000" by simp
      ultimately have "t \<le> 20000 * n + 19998" unfolding nt by linarith
      then have "(of_int t :: rat) \<le> of_int (20000 * n + 19998)" by (simp only: of_int_le_iff)
      then have r2': "bq * 17549 \<le> 20000 * nq + 19998" by (simp add: nq_def tq)
      have "1 / 2 < nq * 4096 + 4096 - x * 4096"
        using r2' x40 xm by linarith
      then show ?thesis by (simp add: D12 algebra_simps)
    qed
  qed
  have lo: "n * 2 ^ k \<le> rne y"
  proof -
    have "of_int (n * 2 ^ k) - 1 < y - 1 / 2"
      using g1 by (simp add: y_def Dk nq_def algebra_simps)
    also have "\<dots> \<le> of_int (rne y)" by (rule rne_lower)
    finally have "(of_int (n * 2 ^ k - 1) :: rat) < of_int (rne y)" by simp
    then have "n * 2 ^ k - 1 < rne y" by (simp only: of_int_less_iff)
    then show ?thesis by linarith
  qed
  have hi: "rne y < (n + 1) * 2 ^ k"
  proof -
    have "of_int (rne y) \<le> y + 1 / 2" by (rule rne_upper)
    also have "\<dots> < of_int ((n + 1) * 2 ^ k)"
      using g2 by (simp add: y_def Dk nq_def algebra_simps)
    finally show ?thesis by (simp only: of_int_less_iff)
  qed
  define r where "r = of_int (rne y) * (2::rat) powi (e - 52)"
  have rD: "r = of_int (rne y) / D" by (simp add: r_def Dinv)
  have rlo: "of_int n \<le> r"
  proof -
    have "(of_int (n * 2 ^ k) :: rat) \<le> of_int (rne y)" using lo by (simp only: of_int_le_iff)
    then have "of_int n * D \<le> of_int (rne y)" by (simp add: Dk)
    then show ?thesis using Dpos by (simp add: rD pos_le_divide_eq)
  qed
  have rhi: "r < of_int n + 1"
  proof -
    have "(of_int (rne y) :: rat) < of_int ((n + 1) * 2 ^ k)" using hi by (simp only: of_int_less_iff)
    then have "of_int (rne y) < (of_int n + 1) * D" by (simp add: Dk)
    then show ?thesis using Dpos by (simp add: rD pos_divide_less_eq)
  qed
  have fl: "\<lfloor>r\<rfloor> = n" using rlo rhi by (rule floor_unique)
  have n0: "0 \<le> n" using bpos by (simp add: n_def pos_imp_zdiv_nonneg_iff)
  have r0: "0 \<le> r"
  proof -
    have "(of_int 0 :: rat) \<le> of_int n" using n0 by (simp only: of_int_le_iff)
    then show ?thesis using rlo by simp
  qed
  have "round_double x = Finite r"
    unfolding r_def y_def D_def
    using b1 b2 elo ehi by (intro round_double_normal) (simp_all add: ax)
  then show ?thesis using fl r0 by (auto simp: xc bq_def n_def)
qed

section \<open>Dictionaries, series and data frames\<close>


type_synonym raw_record = "(string \<times> string) list"

text \<open>
  A pandas \<open>Series\<close> that is one row of a frame: the column labels with the row's cells.
  \<open>cell_at row k\<close> is \<open>row[k]\<close> for a label of the row.
\<close>

type_synonym series = "(string \<times> cell) list"

definition cell_at :: "series \<Rightarrow> string \<Rightarrow> cell" where
  "cell_at row k = (case map_of row k of Some v \<Rightarrow> v | None \<Rightarrow> Nan)"

record dataframe =
  columns :: "string list"
  rows :: "series list"

definition empty_frame :: dataframe where \<comment> \<open>\<open>pd.DataFrame()\<close>\<close>
  "empty_frame = \<lparr>columns = [], rows = []\<rparr>"

definition df_empty :: "dataframe \<Rightarrow> bool" where \<comment> \<open>\<open>df.empty\<close>\<close>
  "df_empty df = (columns df = [] \<or> rows df = [])"

definition keep_first :: "'a list \<Rightarrow> 'a list" where
  "keep_first xs = rev (remdups (rev xs))"

text \<open>
  \<open>pd.DataFrame(records)\<close> for a list of dicts: the columns are the keys in the order
  they first appear, and a record without a key has \<open>nan\<close> there.
\<close>

definition DataFrame :: "raw_record list \<Rightarrow> dataframe" where
  "DataFrame records =
     (let cols = keep_first (concat (map (map fst) records)) in
      \<lparr>columns = cols,
       rows = map (\<lambda>r. map (\<lambda>c. (c, case map_of r c of Some v \<Rightarrow> Str v | None \<Rightarrow> Nan)) cols) records\<rparr>)"

definition drop_duplicates :: "dataframe \<Rightarrow> dataframe" where
  "drop_duplicates df = df\<lparr>rows := keep_first (rows df)\<rparr>"

text \<open>
  \<open>sort_values(by=col)\<close>: text cells in code point order, \<open>nan\<close> last in either
  direction. pandas does not fix the order of rows with equal keys; the model keeps
  their order. The sort columns of this program hold text or \<open>nan\<close> only.
\<close>

fun cell_le :: "cell \<Rightarrow> cell \<Rightarrow> bool" where
  "cell_le _ Nan = True"
| "cell_le Nan _ = False"
| "cell_le (Str s) (Str t) = (s \<le> t)"
| "cell_le (Num i) (Num j) = (i \<le> j)"
| "cell_le (Num i) (Str t) = True"
| "cell_le (Str s) (Num j) = False"

fun cell_ge :: "cell \<Rightarrow> cell \<Rightarrow> bool" where
  "cell_ge _ Nan = True"
| "cell_ge Nan _ = False"
| "cell_ge a b = cell_le b a"

fun insert_row :: "(series \<Rightarrow> series \<Rightarrow> bool) \<Rightarrow> series \<Rightarrow> series list \<Rightarrow> series list" where
  "insert_row le x [] = [x]"
| "insert_row le x (y # ys) = (if le x y then x # y # ys else y # insert_row le x ys)"

definition sort_values :: "dataframe \<Rightarrow> string \<Rightarrow> bool \<Rightarrow> dataframe" where
  "sort_values df by ascending =
     df\<lparr>rows := foldr (insert_row (\<lambda>a b. if ascending then cell_le (cell_at a by) (cell_at b by)
                                              else cell_ge (cell_at a by) (cell_at b by)))
                        (rows df) []\<rparr>"

definition lbl_no :: string where
  "lbl_no = ''No.''"

text \<open>\<open>reset_index(drop=True)\<close> and \<open>insert(0, 'No.', range(1, len + 1))\<close>.\<close>

definition number_rows :: "dataframe \<Rightarrow> dataframe" where
  "number_rows df =
     \<lparr>columns = lbl_no # columns df,
      rows = map (\<lambda>(i, r). (lbl_no, Num (int i)) # r) (zip [1 ..< Suc (length (rows df))] (rows df))\<rparr>"

fun map_err :: "('a \<Rightarrow> py_error + 'b) \<Rightarrow> 'a list \<Rightarrow> py_error + 'b list" where
  "map_err f [] = Inr []"
| "map_err f (x # xs) =
     (case f x of Inl e \<Rightarrow> Inl e
      | Inr y \<Rightarrow> (case map_err f xs of Inl e \<Rightarrow> Inl e | Inr ys \<Rightarrow> Inr (y # ys)))"

section \<open>Column labels\<close>

text \<open>The Korean column labels of the source, as their UTF-8 bytes.\<close>

definition lbl_service_class :: string where \<comment> \<open>service classification\<close>
  "lbl_service_class =
    [CHR 0xEC, CHR 0x9A, CHR 0xA9, CHR 0xEC, CHR 0x97, CHR 0xAD, CHR 0xEA, CHR 0xB5, CHR 0xAC, CHR 0xEB,
     CHR 0xB6, CHR 0x84]"

definition lbl_work_class :: string where \<comment> \<open>work classification\<close>
  "lbl_work_class =
    [CHR 0xEC, CHR 0x97, CHR 0x85, CHR 0xEB, CHR 0xAC, CHR 0xB4, CHR 0xEA, CHR 0xB5, CHR 0xAC, CHR 0xEB,
     CHR 0xB6, CHR 0x84]"

definition lbl_order_period :: string where \<comment> \<open>order period\<close>
  "lbl_order_period =
    [CHR 0xEB, CHR 0xB0, CHR 0x9C, CHR 0xEC, CHR 0xA3, CHR 0xBC, CHR 0xEC, CHR 0x8B, CHR 0x9C, CHR 0xEA,
     CHR 0xB8, CHR 0xB0]"

definition lbl_project_name :: string where \<comment> \<open>project name\<close>
  "lbl_project_name =
    [CHR 0xEC, CHR 0x82, CHR 0xAC, CHR 0xEC, CHR 0x97, CHR 0x85, CHR 0xEB, CHR 0xAA, CHR 0x85]"

definition lbl_total_order_amount :: string where \<comment> \<open>total order amount (won)\<close>
  "lbl_total_order_amount =
    [CHR 0xEC, CHR 0xB4, CHR 0x9D, CHR 0xEB, CHR 0xB0, CHR 0x9C, CHR 0xEC, CHR 0xA3, CHR 0xBC, CHR 0xEA,
     CHR 0xB8, CHR 0x88, CHR 0xEC, CHR 0x95, CHR 0xA1, CHR 0x28, CHR 0xEC, CHR 0x9B, CHR 0x90, CHR 0x29]"

definition lbl_ordering_org :: string where \<comment> \<open>ordering organisation\<close>
  "lbl_ordering_org =
    [CHR 0xEB, CHR 0xB0, CHR 0x9C, CHR 0xEC, CHR 0xA3, CHR 0xBC, CHR 0xEA, CHR 0xB8, CHR 0xB0, CHR 0xEA,
     CHR 0xB4, CHR 0x80, CHR 0xEB, CHR 0xAA, CHR 0x85]"

definition lbl_post_date :: string where \<comment> \<open>posting date\<close>
  "lbl_post_date =
    [CHR 0xEA, CHR 0xB2, CHR 0x8C, CHR 0xEC, CHR 0x8B, CHR 0x9C, CHR 0xEC, CHR 0x9D, CHR 0xBC, CHR 0xEC,
     CHR 0x9E, CHR 0x90]"

definition lbl_rd_title :: string where \<comment> \<open>R&D notice title\<close>
  "lbl_rd_title =
    [CHR 0xEA, CHR 0xB3, CHR 0xBC, CHR 0xEC, CHR 0xA0, CHR 0x9C, CHR 0xEA, CHR 0xB3, CHR 0xB5, CHR 0xEA,
     CHR 0xB3, CHR 0xA0, CHR 0xEB, CHR 0xAA, CHR 0x85]"

definition lbl_notice_org :: string where \<comment> \<open>notice organisation\<close>
  "lbl_notice_org =
    [CHR 0xEA, CHR 0xB3, CHR 0xB5, CHR 0xEA, CHR 0xB3, CHR 0xA0, CHR 0xEA, CHR 0xB8, CHR 0xB0, CHR 0xEA,
     CHR 0xB4, CHR 0x80]"

definition lbl_notice_date :: string where \<comment> \<open>notice date\<close>
  "lbl_notice_date =
    [CHR 0xEA, CHR 0xB3, CHR 0xB5, CHR 0xEA, CHR 0xB3, CHR 0xA0, CHR 0xEC, CHR 0x9D, CHR 0xBC, CHR 0xEC,
     CHR 0x9E, CHR 0x90]"

definition lbl_notice_url :: string where \<comment> \<open>notice link (URL)\<close>
  "lbl_notice_url =
    [CHR 0xEA, CHR 0xB3, CHR 0xB5, CHR 0xEA, CHR 0xB3, CHR 0xA0, CHR 0xEB, CHR 0xA7, CHR 0x81, CHR 0xED,
     CHR 0x81, CHR 0xAC, CHR 0x28, CHR 0x55, CHR 0x52, CHR 0x4C, CHR 0x29]"

definition lbl_ref_no :: string where \<comment> \<open>reference number\<close>
  "lbl_ref_no =
    [CHR 0xEC, CHR 0xB0, CHR 0xB8, CHR 0xEC, CHR 0xA1, CHR 0xB0, CHR 0xEB, CHR 0xB2, CHR 0x88, CHR 0xED,
     CHR 0x98, CHR 0xB8]"

definition lbl_project_item_name :: string where \<comment> \<open>project (item) name\<close>
  "lbl_project_item_name =
    [CHR 0xEC, CHR 0x82, CHR 0xAC, CHR 0xEC, CHR 0x97, CHR 0x85, CHR 0xEB, CHR 0xAA, CHR 0x85, CHR 0x28,
     CHR 0xED, CHR 0x92, CHR 0x88, CHR 0xEB, CHR 0xAA, CHR 0x85, CHR 0x29]"

definition lbl_real_demand_org :: string where \<comment> \<open>actual demand organisation\<close>
  "lbl_real_demand_org =
    [CHR 0xEC, CHR 0x8B, CHR 0xA4, CHR 0xEC, CHR 0x88, CHR 0x98, CHR 0xEC, CHR 0x9A, CHR 0x94, CHR 0xEA,
     CHR 0xB8, CHR 0xB0, CHR 0xEA, CHR 0xB4, CHR 0x80]"

definition lbl_budget_amount :: string where \<comment> \<open>allocated budget amount (won)\<close>
  "lbl_budget_amount =
    [CHR 0xEB, CHR 0xB0, CHR 0xB0, CHR 0xEC, CHR 0xA0, CHR 0x95, CHR 0xEC, CHR 0x98, CHR 0x88, CHR 0xEC,
     CHR 0x82, CHR 0xB0, CHR 0xEC, CHR 0x95, CHR 0xA1, CHR 0x28, CHR 0xEC, CHR 0x9B, CHR 0x90, CHR 0x29]"

definition lbl_open_datetime :: string where \<comment> \<open>disclosure date and time\<close>
  "lbl_open_datetime =
    [CHR 0xEA, CHR 0xB3, CHR 0xB5, CHR 0xEA, CHR 0xB0, CHR 0x9C, CHR 0xEC, CHR 0x9D, CHR 0xBC, CHR 0xEC,
     CHR 0x8B, CHR 0x9C]"

definition lbl_opinion_deadline :: string where \<comment> \<open>opinion registration deadline\<close>
  "lbl_opinion_deadline =
    [CHR 0xEC, CHR 0x9D, CHR 0x98, CHR 0xEA, CHR 0xB2, CHR 0xAC, CHR 0xEB, CHR 0x93, CHR 0xB1, CHR 0xEB,
     CHR 0xA1, CHR 0x9D, CHR 0xEB, CHR 0xA7, CHR 0x88, CHR 0xEA, CHR 0xB0, CHR 0x90, CHR 0xEC, CHR 0x9D,
     CHR 0xBC, CHR 0xEC, CHR 0x8B, CHR 0x9C]"

definition lbl_officer_name :: string where \<comment> \<open>officer name\<close>
  "lbl_officer_name =
    [CHR 0xEB, CHR 0x8B, CHR 0xB4, CHR 0xEB, CHR 0x8B, CHR 0xB9, CHR 0xEC, CHR 0x9E, CHR 0x90, CHR 0xEB,
     CHR 0xAA, CHR 0x85]"

definition lbl_officer_phone :: string where \<comment> \<open>officer telephone number\<close>
  "lbl_officer_phone =
    [CHR 0xEB, CHR 0x8B, CHR 0xB4, CHR 0xEB, CHR 0x8B, CHR 0xB9, CHR 0xEC, CHR 0x9E, CHR 0x90, CHR 0xEC,
     CHR 0xA0, CHR 0x84, CHR 0xED, CHR 0x99, CHR 0x94, CHR 0xEB, CHR 0xB2, CHR 0x88, CHR 0xED, CHR 0x98,
     CHR 0xB8]"

definition lbl_sw_project :: string where \<comment> \<open>software project flag\<close>
  "lbl_sw_project =
    [CHR 0x53, CHR 0x57, CHR 0xEC, CHR 0x82, CHR 0xAC, CHR 0xEC, CHR 0x97, CHR 0x85, CHR 0xEC, CHR 0x97,
     CHR 0xAC, CHR 0xEB, CHR 0xB6, CHR 0x80]"

definition lbl_delivery_deadline :: string where \<comment> \<open>delivery deadline\<close>
  "lbl_delivery_deadline =
    [CHR 0xEB, CHR 0x82, CHR 0xA9, CHR 0xED, CHR 0x92, CHR 0x88, CHR 0xEA, CHR 0xB8, CHR 0xB0, CHR 0xED,
     CHR 0x95, CHR 0x9C]"

definition lbl_delivery_days :: string where \<comment> \<open>delivery days\<close>
  "lbl_delivery_days =
    [CHR 0xEB, CHR 0x82, CHR 0xA9, CHR 0xED, CHR 0x92, CHR 0x88, CHR 0xEC, CHR 0x9D, CHR 0xBC, CHR 0xEC,
     CHR 0x88, CHR 0x98]"

definition lbl_prior_spec_no :: string where \<comment> \<open>prior specification registration number\<close>
  "lbl_prior_spec_no =
    [CHR 0xEC, CHR 0x82, CHR 0xAC, CHR 0xEC, CHR 0xA0, CHR 0x84, CHR 0xEA, CHR 0xB7, CHR 0x9C, CHR 0xEA,
     CHR 0xB2, CHR 0xA9, CHR 0xEB, CHR 0x93, CHR 0xB1, CHR 0xEB, CHR 0xA1, CHR 0x9D, CHR 0xEB, CHR 0xB2,
     CHR 0x88, CHR 0xED, CHR 0x98, CHR 0xB8]"

definition lbl_spec_url :: string where \<comment> \<open>specification URL\<close>
  "lbl_spec_url =
    [CHR 0xEA, CHR 0xB7, CHR 0x9C, CHR 0xEA, CHR 0xB2, CHR 0xA9, CHR 0xEC, CHR 0x84, CHR 0x9C, CHR 0x55,
     CHR 0x52, CHR 0x4C]"

definition lbl_reg_datetime :: string where \<comment> \<open>registration date and time\<close>
  "lbl_reg_datetime =
    [CHR 0xEB, CHR 0x93, CHR 0xB1, CHR 0xEB, CHR 0xA1, CHR 0x9D, CHR 0xEC, CHR 0x9D, CHR 0xBC, CHR 0xEC,
     CHR 0x8B, CHR 0x9C]"

definition lbl_change_datetime :: string where \<comment> \<open>change date and time\<close>
  "lbl_change_datetime =
    [CHR 0xEB, CHR 0xB3, CHR 0x80, CHR 0xEA, CHR 0xB2, CHR 0xBD, CHR 0xEC, CHR 0x9D, CHR 0xBC, CHR 0xEC,
     CHR 0x8B, CHR 0x9C]"

definition lbl_linked_notice_no :: string where \<comment> \<open>linked notice number\<close>
  "lbl_linked_notice_no =
    [CHR 0xEB, CHR 0xB3, CHR 0xB8, CHR 0xEA, CHR 0xB3, CHR 0xB5, CHR 0xEA, CHR 0xB3, CHR 0xA0, CHR 0xEB,
     CHR 0xB2, CHR 0x88, CHR 0xED, CHR 0x98, CHR 0xB8, CHR 0x28, CHR 0xEC, CHR 0x97, CHR 0xB0, CHR 0xEA,
     CHR 0xB3, CHR 0x84, CHR 0x29]"

definition lbl_notice_no :: string where \<comment> \<open>notice number\<close>
  "lbl_notice_no =
    [CHR 0xEA, CHR 0xB3, CHR 0xB5, CHR 0xEA, CHR 0xB3, CHR 0xA0, CHR 0xEB, CHR 0xB2, CHR 0x88, CHR 0xED,
     CHR 0x98, CHR 0xB8]"

definition lbl_notice_ord :: string where \<comment> \<open>notice revision\<close>
  "lbl_notice_ord =
    [CHR 0xEC, CHR 0xB0, CHR 0xA8, CHR 0xEC, CHR 0x88, CHR 0x98]"

definition lbl_renotice :: string where \<comment> \<open>re-notice flag\<close>
  "lbl_renotice =
    [CHR 0xEC, CHR 0x9E, CHR 0xAC, CHR 0xEA, CHR 0xB3, CHR 0xB5, CHR 0xEA, CHR 0xB3, CHR 0xA0, CHR 0xEC,
     CHR 0x97, CHR 0xAC, CHR 0xEB, CHR 0xB6, CHR 0x80]"

definition lbl_notice_name :: string where \<comment> \<open>notice name\<close>
  "lbl_notice_name =
    [CHR 0xEA, CHR 0xB3, CHR 0xB5, CHR 0xEA, CHR 0xB3, CHR 0xA0, CHR 0xEB, CHR 0xAA, CHR 0x85]"

definition lbl_notice_kind :: string where \<comment> \<open>notice kind\<close>
  "lbl_notice_kind =
    [CHR 0xEA, CHR 0xB3, CHR 0xB5, CHR 0xEA, CHR 0xB3, CHR 0xA0, CHR 0xEC, CHR 0xA2, CHR 0x85, CHR 0xEB,
     CHR 0xA5, CHR 0x98]"

definition lbl_bid_method :: string where \<comment> \<open>bidding method\<close>
  "lbl_bid_method =
    [CHR 0xEC, CHR 0x9E, CHR 0x85, CHR 0xEC, CHR 0xB0, CHR 0xB0, CHR 0xEB, CHR 0xB0, CHR 0xA9, CHR 0xEC,
     CHR 0x8B, CHR 0x9D]"

definition lbl_contract_method :: string where \<comment> \<open>contract method\<close>
  "lbl_contract_method =
    [CHR 0xEA, CHR 0xB3, CHR 0x84, CHR 0xEC, CHR 0x95, CHR 0xBD, CHR 0xEB, CHR 0xB0, CHR 0xA9, CHR 0xEB,
     CHR 0xB2, CHR 0x95]"

definition lbl_award_method :: string where \<comment> \<open>award decision method\<close>
  "lbl_award_method =
    [CHR 0xEB, CHR 0x82, CHR 0x99, CHR 0xEC, CHR 0xB0, CHR 0xB0, CHR 0xEC, CHR 0x9E, CHR 0x90, CHR 0xEA,
     CHR 0xB2, CHR 0xB0, CHR 0xEC, CHR 0xA0, CHR 0x95, CHR 0xEB, CHR 0xB0, CHR 0xA9, CHR 0xEB, CHR 0xB2,
     CHR 0x95]"

definition lbl_demand_org :: string where \<comment> \<open>demand organisation\<close>
  "lbl_demand_org =
    [CHR 0xEC, CHR 0x88, CHR 0x98, CHR 0xEC, CHR 0x9A, CHR 0x94, CHR 0xEA, CHR 0xB8, CHR 0xB0, CHR 0xEA,
     CHR 0xB4, CHR 0x80]"

definition lbl_post_datetime :: string where \<comment> \<open>posting date and time\<close>
  "lbl_post_datetime =
    [CHR 0xEA, CHR 0xB2, CHR 0x8C, CHR 0xEC, CHR 0x8B, CHR 0x9C, CHR 0xEC, CHR 0x9D, CHR 0xBC, CHR 0xEC,
     CHR 0x8B, CHR 0x9C]"

definition lbl_bid_begin :: string where \<comment> \<open>bid opening date and time\<close>
  "lbl_bid_begin =
    [CHR 0xEC, CHR 0x9E, CHR 0x85, CHR 0xEC, CHR 0xB0, CHR 0xB0, CHR 0xEA, CHR 0xB0, CHR 0x9C, CHR 0xEC,
     CHR 0x8B, CHR 0x9C, CHR 0xEC, CHR 0x9D, CHR 0xBC, CHR 0xEC, CHR 0x8B, CHR 0x9C]"

definition lbl_bid_close :: string where \<comment> \<open>bid closing date and time\<close>
  "lbl_bid_close =
    [CHR 0xEC, CHR 0x9E, CHR 0x85, CHR 0xEC, CHR 0xB0, CHR 0xB0, CHR 0xEB, CHR 0xA7, CHR 0x88, CHR 0xEA,
     CHR 0xB0, CHR 0x90, CHR 0xEC, CHR 0x9D, CHR 0xBC, CHR 0xEC, CHR 0x8B, CHR 0x9C]"

definition lbl_opening_datetime :: string where \<comment> \<open>tender opening date and time\<close>
  "lbl_opening_datetime =
    [CHR 0xEA, CHR 0xB0, CHR 0x9C, CHR 0xEC, CHR 0xB0, CHR 0xB0, CHR 0xEC, CHR 0x9D, CHR 0xBC, CHR 0xEC,
     CHR 0x8B, CHR 0x9C]"

definition lbl_qualification_deadline :: string where \<comment> \<open>bid qualification registration deadline\<close>
  "lbl_qualification_deadline =
    [CHR 0xEC, CHR 0x9E, CHR 0x85, CHR 0xEC, CHR 0xB0, CHR 0xB0, CHR 0xEC, CHR 0xB0, CHR 0xB8, CHR 0xEA,
     CHR 0xB0, CHR 0x80, CHR 0xEC, CHR 0x9E, CHR 0x90, CHR 0xEA, CHR 0xB2, CHR 0xA9, CHR 0xEB, CHR 0x93,
     CHR 0xB1, CHR 0xEB, CHR 0xA1, CHR 0x9D, CHR 0xEB, CHR 0xA7, CHR 0x88, CHR 0xEA, CHR 0xB0, CHR 0x90,
     CHR 0xEC, CHR 0x9D, CHR 0xBC, CHR 0xEC, CHR 0x8B, CHR 0x9C]"

definition lbl_budget :: string where \<comment> \<open>allocated budget (won)\<close>
  "lbl_budget =
    [CHR 0xEB, CHR 0xB0, CHR 0xB0, CHR 0xEC, CHR 0xA0, CHR 0x95, CHR 0xEC, CHR 0x98, CHR 0x88, CHR 0xEC,
     CHR 0x82, CHR 0xB0, CHR 0x28, CHR 0xEC, CHR 0x9B, CHR 0x90, CHR 0x29]"

definition lbl_estimated_price :: string where \<comment> \<open>estimated price (won)\<close>
  "lbl_estimated_price =
    [CHR 0xEC, CHR 0xB6, CHR 0x94, CHR 0xEC, CHR 0xA0, CHR 0x95, CHR 0xEA, CHR 0xB0, CHR 0x80, CHR 0xEA,
     CHR 0xB2, CHR 0xA9, CHR 0x28, CHR 0xEC, CHR 0x9B, CHR 0x90, CHR 0x29]"

definition lbl_participation_fee :: string where \<comment> \<open>bid participation fee\<close>
  "lbl_participation_fee =
    [CHR 0xEC, CHR 0x9E, CHR 0x85, CHR 0xEC, CHR 0xB0, CHR 0xB0, CHR 0xEC, CHR 0xB0, CHR 0xB8, CHR 0xEA,
     CHR 0xB0, CHR 0x80, CHR 0xEC, CHR 0x88, CHR 0x98, CHR 0xEC, CHR 0x88, CHR 0x98, CHR 0xEB, CHR 0xA3,
     CHR 0x8C]"

definition lbl_joint_supply :: string where \<comment> \<open>joint supply flag\<close>
  "lbl_joint_supply =
    [CHR 0xEA, CHR 0xB3, CHR 0xB5, CHR 0xEB, CHR 0x8F, CHR 0x99, CHR 0xEC, CHR 0x88, CHR 0x98, CHR 0xEA,
     CHR 0xB8, CHR 0x89, CHR 0xEC, CHR 0x97, CHR 0xAC, CHR 0xEB, CHR 0xB6, CHR 0x80]"

definition lbl_price_method :: string where \<comment> \<open>planned price method\<close>
  "lbl_price_method =
    [CHR 0xEC, CHR 0x98, CHR 0x88, CHR 0xEA, CHR 0xB0, CHR 0x80, CHR 0xEB, CHR 0xB0, CHR 0xA9, CHR 0xEC,
     CHR 0x8B, CHR 0x9D]"

definition lbl_opening_place :: string where \<comment> \<open>tender opening place\<close>
  "lbl_opening_place =
    [CHR 0xEA, CHR 0xB0, CHR 0x9C, CHR 0xEC, CHR 0xB0, CHR 0xB0, CHR 0xEC, CHR 0x9E, CHR 0xA5, CHR 0xEC,
     CHR 0x86, CHR 0x8C]"

definition lbl_branch_bid :: string where \<comment> \<open>branch bidding permission flag\<close>
  "lbl_branch_bid =
    [CHR 0xEC, CHR 0xA7, CHR 0x80, CHR 0xEC, CHR 0x82, CHR 0xAC, CHR 0xED, CHR 0x88, CHR 0xAC, CHR 0xEC,
     CHR 0xB0, CHR 0xB0, CHR 0xED, CHR 0x97, CHR 0x88, CHR 0xEC, CHR 0x9A, CHR 0xA9, CHR 0xEC, CHR 0x97,
     CHR 0xAC, CHR 0xEB, CHR 0xB6, CHR 0x80]"

definition lbl_min_bid :: string where \<comment> \<open>expected minimum bid (won)\<close>
  "lbl_min_bid =
    [CHR 0xEC, CHR 0x98, CHR 0x88, CHR 0xEC, CHR 0x83, CHR 0x81, CHR 0x20, CHR 0xED, CHR 0x88, CHR 0xAC,
     CHR 0xEC, CHR 0xB0, CHR 0xB0, CHR 0xED, CHR 0x95, CHR 0x98, CHR 0xED, CHR 0x95, CHR 0x9C, CHR 0xEA,
     CHR 0xB0, CHR 0x80, CHR 0x28, CHR 0xEC, CHR 0x9B, CHR 0x90, CHR 0x29]"

definition lbl_notice_end_date :: string where \<comment> \<open>notice end date\<close>
  "lbl_notice_end_date =
    [CHR 0xEA, CHR 0xB3, CHR 0xB5, CHR 0xEA, CHR 0xB3, CHR 0xA0, CHR 0xEC, CHR 0xA2, CHR 0x85, CHR 0xEB,
     CHR 0xA3, CHR 0x8C, CHR 0xEC, CHR 0x9D, CHR 0xBC]"

definition txt_general_service :: string where \<comment> \<open>general service\<close>
  "txt_general_service =
    [CHR 0xEC, CHR 0x9D, CHR 0xBC, CHR 0xEB, CHR 0xB0, CHR 0x98, CHR 0xEC, CHR 0x9A, CHR 0xA9, CHR 0xEC,
     CHR 0x97, CHR 0xAD]"

definition txt_technical_service :: string where \<comment> \<open>technical service\<close>
  "txt_technical_service =
    [CHR 0xEA, CHR 0xB8, CHR 0xB0, CHR 0xEC, CHR 0x88, CHR 0xA0, CHR 0xEC, CHR 0x9A, CHR 0xA9, CHR 0xEC,
     CHR 0x97, CHR 0xAD]"

definition rd_col_map :: "(string \<times> string) list" where
  "rd_col_map =
    [(''subject'', lbl_rd_title), (''deptName'', lbl_notice_org), (''regDate'', lbl_notice_date),
     (''viewUrl'', lbl_notice_url)]"

definition prior_col_map :: "(string \<times> string) list" where
  "prior_col_map =
    [(''bsnsDivNm'', lbl_work_class), (''refNo'', lbl_ref_no), (''prdctClsfcNoNm'', lbl_project_item_name),
     (''orderInsttNm'', lbl_notice_org), (''rlDminsttNm'', lbl_real_demand_org), (''asignBdgtAmt'', lbl_budget_amount),
     (''rcptDt'', lbl_open_datetime), (''opninRgstClseDt'', lbl_opinion_deadline), (''ofclNm'', lbl_officer_name),
     (''ofclTelNo'', lbl_officer_phone), (''swBizObjYn'', lbl_sw_project), (''dlvrTmlmtDt'', lbl_delivery_deadline),
     (''dlvrDaynum'', lbl_delivery_days), (''bfSpecRgstNo'', lbl_prior_spec_no), (''specDocFileUrl1'', lbl_spec_url),
     (''rgstDt'', lbl_reg_datetime), (''chgDt'', lbl_change_datetime), (''bidNtceNoList'', lbl_linked_notice_no)]"

definition bid_col_map :: "(string \<times> string) list" where
  "bid_col_map =
    [(''bidNtceNo'', lbl_notice_no), (''bidNtceOrd'', lbl_notice_ord), (''reNtceYn'', lbl_renotice),
     (''bidNtceNm'', lbl_notice_name), (''ntceKindNm'', lbl_notice_kind), (''bidMethdNm'', lbl_bid_method),
     (''cntrctCnclsMthdNm'', lbl_contract_method), (''sucsfbidMthdNm'', lbl_award_method), (''ntceInsttNm'', lbl_notice_org),
     (''dminsttNm'', lbl_demand_org), (''ntceInsttOfclNm'', lbl_officer_name), (''ntceInsttOfclTelNo'', lbl_officer_phone),
     (''bidNtceDt'', lbl_post_datetime), (''bidBeginDt'', lbl_bid_begin), (''bidClseDt'', lbl_bid_close),
     (''opengDt'', lbl_opening_datetime), (''bidQlfctRgstDt'', lbl_qualification_deadline), (''asignBdgtAmt'', lbl_budget),
     (''presmptPrce'', lbl_estimated_price), (''bidPrtcptFee'', lbl_participation_fee), (''bidNtceUrl'', lbl_notice_url),
     (''bfSpecRgstNo'', lbl_prior_spec_no), (''refNo'', lbl_ref_no), (''cmmnSpldmdMethdNm'', lbl_joint_supply),
     (''prearngPrceDcsnMthdNm'', lbl_price_method), (''opengPlce'', lbl_opening_place), (''brffcBidprcPermsnYn'', lbl_branch_bid)]"

section \<open>Normalizer\<close>

subsection \<open>\<open>get_val\<close>, \<open>get_clean_val\<close>\<close>

definition row_lower :: "series \<Rightarrow> series" where
  "row_lower row = map (\<lambda>(k, v). (lower k, v)) row"

text \<open>The value of a key when it is there, not \<open>nan\<close> and not blank.\<close>

fun nonblank :: "cell option \<Rightarrow> string option" where
  "nonblank None = None"
| "nonblank (Some v) = (if notna v \<and> strip (py_str v) \<noteq> [] then Some (strip (py_str v)) else None)"

text \<open>
  \<open>row_lower\<close> is a dict built by a comprehension: of two keys that agree in lower
  case, the later one's value stays, hence the lookup in the reversed list.
\<close>

fun get_val_loop :: "series \<Rightarrow> series \<Rightarrow> string list \<Rightarrow> string \<Rightarrow> string" where
  "get_val_loop row rl [] dflt = dflt"
| "get_val_loop row rl (k # ks) dflt =
     (case nonblank (map_of row k) of
        Some s \<Rightarrow> s
      | None \<Rightarrow> (case nonblank (map_of (rev rl) (lower k)) of
                   Some s \<Rightarrow> s
                 | None \<Rightarrow> get_val_loop row rl ks dflt))"

definition get_val :: "series \<Rightarrow> string list \<Rightarrow> string \<Rightarrow> string" where
  "get_val row possible_keys dflt = get_val_loop row (row_lower row) possible_keys dflt"

definition get_clean_val :: "series \<Rightarrow> string list \<Rightarrow> string" where
  "get_clean_val row possible_keys =
     (let val = get_val row possible_keys [] in if val \<noteq> [] then val else [])"

subsection \<open>\<open>apply_exclusion_filter\<close>\<close>

definition apply_exclusion_filter :: "dataframe \<Rightarrow> string \<Rightarrow> string list \<Rightarrow> py_error + dataframe" where
  "apply_exclusion_filter df target_col exclude_keywords =
     (if df_empty df \<or> exclude_keywords = [] then Inr df
      else if target_col \<notin> set (columns df) then Inl KeyError
      else Inr (df\<lparr>rows := filter (\<lambda>r. \<not> list_ex (\<lambda>exc. contains exc (py_str (cell_at r target_col)))
                                                   exclude_keywords) (rows df)\<rparr>))"

text \<open>\<open>new_df[new_df[col].str.strip() != '']\<close>: \<open>.str.strip()\<close> of a cell that is not text is \<open>nan\<close>, which differs from \<open>''\<close>.\<close>

fun not_blank :: "cell \<Rightarrow> bool" where
  "not_blank (Str s) = (strip s \<noteq> [])"
| "not_blank _ = True"

definition drop_blank :: "dataframe \<Rightarrow> string \<Rightarrow> dataframe" where
  "drop_blank df col = df\<lparr>rows := filter (\<lambda>r. not_blank (cell_at r col)) (rows df)\<rparr>"

subsection \<open>\<open>process_rd_for_excel\<close>\<close>

text \<open>
  The processors build \<open>new_df\<close> column by column from \<open>df\<close>; the model builds the same
  cells row by row, \<open>new_df\<close> having the rows of \<open>df\<close>. A scalar assigned to a column
  stands in every row.
\<close>

definition process_rd_for_excel :: "dataframe \<Rightarrow> string list \<Rightarrow> string list \<Rightarrow> py_error + dataframe" where
  "process_rd_for_excel df keywords exclude_keywords =
     (if df_empty df then Inr empty_frame
      else
        let new_df = \<lparr>columns = map snd rd_col_map,
                      rows = map (\<lambda>r. map (\<lambda>(tag, kr_col).
                                 (kr_col, if tag \<in> set (columns df) then cell_at r tag else Str [])) rd_col_map)
                                 (rows df)\<rparr>;
            new_df1 = (if keywords \<noteq> []
                       then new_df\<lparr>rows := filter (\<lambda>r. list_ex (\<lambda>k. contains k (py_str (cell_at r lbl_rd_title))) keywords)
                                                    (rows new_df)\<rparr>
                       else new_df)
        in case (if exclude_keywords \<noteq> [] then apply_exclusion_filter new_df1 lbl_rd_title exclude_keywords
                 else Inr new_df1) of
             Inl e \<Rightarrow> Inl e
           | Inr new_df2 \<Rightarrow> Inr (number_rows (sort_values new_df2 lbl_notice_date False)))"

subsection \<open>\<open>process_order_for_excel\<close>\<close>

text \<open>\<open>len\<close> of a \<open>str\<close> counts code points: the bytes that do not continue a character.\<close>

definition py_len :: "string \<Rightarrow> nat" where
  "py_len s = length (filter (\<lambda>c. \<not> (CHR 0x80 \<le> c \<and> c \<le> CHR 0xBF)) s)"

definition zfill :: "nat \<Rightarrow> string \<Rightarrow> string" where
  "zfill width s =
     (if width \<le> py_len s then s
      else case s of
             [] \<Rightarrow> replicate width CHR ''0''
           | c # r \<Rightarrow> if c = CHR ''+'' \<or> c = CHR ''-''
                      then c # replicate (width - py_len s) CHR ''0'' @ r
                      else replicate (width - py_len s) CHR ''0'' @ s)"

definition order_amount :: "series \<Rightarrow> py_error + int" where
  "order_amount r =
     (case py_float (remove_char CHR '','' (get_val r [''sumOrderAmt'', ''totlAmt''] ''0'')) of
        Inl e \<Rightarrow> Inl e
      | Inr d \<Rightarrow> int_of_float d)"

definition order_row :: "series \<Rightarrow> py_error + series" where
  "order_row r =
     (case order_amount r of
        Inl e \<Rightarrow> Inl e
      | Inr amount \<Rightarrow> Inr
         [(lbl_service_class,
             Str (if get_val r [''bsnsDivCd''] [] = ''03'' then txt_general_service
                  else if get_val r [''bsnsDivCd''] [] = ''05'' then txt_technical_service else [])),
          (lbl_work_class, Str (get_val r [''bsnsTyNm'', ''bztyNm''] [])),
          (lbl_order_period,
             Str (if get_val r [''orderYear''] [] \<noteq> []
                  then get_val r [''orderYear''] [] @ ''/'' @ zfill 2 (get_val r [''orderMnth''] [])
                  else [])),
          (lbl_project_name, Str (get_clean_val r [''bizNm'', ''prdctClsfNoNm'', ''prdctClsfcNoNm'', ''cntrctNm''])),
          (lbl_total_order_amount, Num amount),
          (lbl_ordering_org, Str (get_clean_val r [''orderInsttNm'', ''dmndInsttNm'', ''realOrgNm''])),
          (lbl_post_date, Str (get_val r [''nticeDt'', ''opengDt''] []))])"

definition process_order_for_excel :: "dataframe \<Rightarrow> string list \<Rightarrow> py_error + dataframe" where
  "process_order_for_excel df exclude_keywords =
     (if df_empty df then Inr empty_frame
      else case map_err order_row (rows df) of
        Inl e \<Rightarrow> Inl e
      | Inr rs \<Rightarrow>
         let new_df = drop_blank
               \<lparr>columns = [lbl_service_class, lbl_work_class, lbl_order_period, lbl_project_name,
                           lbl_total_order_amount, lbl_ordering_org, lbl_post_date],
                rows = rs\<rparr> lbl_project_name
         in (case (if exclude_keywords \<noteq> [] then apply_exclusion_filter new_df lbl_project_name exclude_keywords
                   else Inr new_df) of
               Inl e \<Rightarrow> Inl e
             | Inr new_df1 \<Rightarrow> Inr (number_rows (sort_values new_df1 lbl_order_period True))))"

subsection \<open>\<open>parse_money\<close>, \<open>process_prior_for_excel\<close>, \<open>process_bid_for_excel\<close>\<close>

text \<open>
  \<open>parse_money\<close> is defined twice in the source, inside \<open>process_prior_for_excel\<close> and
  inside \<open>process_bid_for_excel\<close>, with the same text. Its bare \<open>except\<close> turns every
  exception into 0.
\<close>

definition parse_money :: "cell \<Rightarrow> int" where
  "parse_money x =
     (case py_float (strip (remove_char CHR '','' (py_str x))) of
        Inl e \<Rightarrow> 0
      | Inr d \<Rightarrow> (case int_of_float d of Inl e \<Rightarrow> 0 | Inr i \<Rightarrow> i))"

definition found_col :: "dataframe \<Rightarrow> string \<Rightarrow> string option" where
  "found_col df tag = find (\<lambda>col. lower col = lower tag) (columns df)"

fun fillna :: "cell \<Rightarrow> cell" where \<comment> \<open>\<open>fillna("")\<close>\<close>
  "fillna Nan = Str []"
| "fillna c = c"

definition map_column :: "dataframe \<Rightarrow> string list \<Rightarrow> series \<Rightarrow> string \<times> string \<Rightarrow> string \<times> cell" where
  "map_column df money_tags r = (\<lambda>(tag, kr_col).
     (kr_col,
      if tag \<in> set money_tags
      then (case found_col df tag of Some col \<Rightarrow> Num (parse_money (cell_at r col)) | None \<Rightarrow> Num 0)
      else (case found_col df tag of Some col \<Rightarrow> fillna (cell_at r col) | None \<Rightarrow> Str [])))"

definition process_prior_for_excel :: "dataframe \<Rightarrow> string list \<Rightarrow> py_error + dataframe" where
  "process_prior_for_excel df exclude_keywords =
     (if df_empty df then Inr empty_frame
      else
        let new_df = drop_blank
              \<lparr>columns = map snd prior_col_map,
               rows = map (\<lambda>r. map (map_column df [''asignBdgtAmt''] r) prior_col_map) (rows df)\<rparr>
              lbl_project_item_name
        in case (if exclude_keywords \<noteq> [] then apply_exclusion_filter new_df lbl_project_item_name exclude_keywords
                 else Inr new_df) of
             Inl e \<Rightarrow> Inl e
           | Inr new_df1 \<Rightarrow> Inr (number_rows (sort_values new_df1 lbl_open_datetime True)))"

text \<open>\<open>x > 0\<close> for a cell: false for \<open>nan\<close>, a \<open>TypeError\<close> for text.\<close>

fun gt_zero :: "cell \<Rightarrow> py_error + bool" where
  "gt_zero (Num i) = Inr (0 < i)"
| "gt_zero Nan = Inr False"
| "gt_zero (Str s) = Inl TypeError"

definition calc_min_bid :: "series \<Rightarrow> py_error + int" where
  "calc_min_bid row =
     (case (map_of row lbl_budget, map_of row lbl_estimated_price) of
        (Some budget, Some estim) \<Rightarrow>
          (case gt_zero budget of
             Inl e \<Rightarrow> Inl e
           | Inr b \<Rightarrow>
              let base_price = (if b then budget else estim) in
              (case gt_zero base_price of
                 Inl e \<Rightarrow> Inl e
               | Inr False \<Rightarrow> Inr 0
               | Inr True \<Rightarrow>
                  (case base_price of
                     Num bp \<Rightarrow> (case float_of_int bp of
                                  Inl e \<Rightarrow> Inl e
                                | Inr d \<Rightarrow> int_of_float (float_mul d min_bid_rate))
                   | _ \<Rightarrow> Inl TypeError)))
      | _ \<Rightarrow> Inl KeyError)"

definition bid_row :: "dataframe \<Rightarrow> series \<Rightarrow> py_error + series" where
  "bid_row df r =
     (let nr = map (map_column df [''asignBdgtAmt'', ''presmptPrce'', ''bidPrtcptFee''] r) bid_col_map in
      case calc_min_bid nr of Inl e \<Rightarrow> Inl e | Inr v \<Rightarrow> Inr (nr @ [(lbl_min_bid, Num v)]))"

definition process_bid_for_excel :: "dataframe \<Rightarrow> string list \<Rightarrow> py_error + dataframe" where
  "process_bid_for_excel df exclude_keywords =
     (if df_empty df then Inr empty_frame
      else case map_err (bid_row df) (rows df) of
        Inl e \<Rightarrow> Inl e
      | Inr rs \<Rightarrow>
         let new_df = drop_blank \<lparr>columns = map snd bid_col_map @ [lbl_min_bid], rows = rs\<rparr> lbl_notice_name
         in (case (if exclude_keywords \<noteq> [] then apply_exclusion_filter new_df lbl_notice_name exclude_keywords
                   else Inr new_df) of
               Inl e \<Rightarrow> Inl e
             | Inr new_df1 \<Rightarrow> Inr (number_rows (sort_values new_df1 lbl_post_datetime True))))"

section \<open>Fetcher\<close>





definition ORDER_PLAN_URL :: string where
  "ORDER_PLAN_URL = ''https://apis.data.go.kr/1230000/ao/OrderPlanSttusService/getOrderPlanSttusListServcPPSSrch''"

definition PRIOR_SPEC_URL :: string where
  "PRIOR_SPEC_URL = ''https://apis.data.go.kr/1230000/ao/HrcspSsstndrdInfoService/getPublicPrcureThngInfoServcPPSSrch''"












section \<open>Window splitter\<close>







section \<open>Urgency of a sheet row\<close>

text \<open>
  \<open>pd.to_datetime\<close> is a parameter: it raises, or gives \<open>NaT\<close>, or a timestamp that is
  naive or carries a time zone. Timestamps and \<open>now\<close> count nanoseconds. Subtracting the
  naive \<open>now\<close> from a timestamp with a time zone raises a \<open>TypeError\<close>; \<open>.days\<close> of a
  difference is its floor in whole days, and that of \<open>NaT\<close> compares false.
\<close>

datatype timestamp = Naive int | Aware int | NaT

definition ns_day :: int where
  "ns_day = 86400000000000"

definition ns_second :: int where
  "ns_second = 1000000000"

fun truthy :: "cell \<Rightarrow> bool" where \<comment> \<open>\<open>if cell_val:\<close>; an empty cell is \<open>nan\<close> here\<close>
  "truthy (Str s) = (s \<noteq> [])"
| "truthy (Num i) = (i \<noteq> 0)"
| "truthy Nan = False"

text \<open>The index of the last header cell that is one of the two deadline labels, or \<open>-1\<close>.\<close>

definition deadline_col_idx :: "cell list \<Rightarrow> int" where
  "deadline_col_idx header =
     foldl (\<lambda>idx (i, c). if c \<in> set [Str lbl_bid_close, Str lbl_notice_end_date] then int i else idx)
           (- 1) (zip [0 ..< length header] header)"

definition is_urgent :: "(string \<Rightarrow> py_error + timestamp) \<Rightarrow> int \<Rightarrow> int \<Rightarrow> cell list \<Rightarrow> bool" where
  "is_urgent to_datetime now idx row =
     (if idx \<noteq> - 1 then
        (if 0 \<le> idx \<and> idx < int (length row) then
           (let cell_val = row ! nat idx in
            if truthy cell_val then
              (case to_datetime (py_str cell_val) of
                 Inl e \<Rightarrow> False
               | Inr NaT \<Rightarrow> False
               | Inr (Aware d) \<Rightarrow> False
               | Inr (Naive deadline) \<Rightarrow> (deadline - now) div ns_day \<le> 7 \<and> now < deadline)
            else False)
         else False)
      else False)"

section \<open>The claims\<close>

subsection \<open>C1: the minimum-bid field\<close>

lemma floor_rate: "\<lfloor>(of_int b :: rat) * (87745 / 100000)\<rfloor> = (b * 87745) div 100000"
proof -
  have "(of_int b :: rat) * (87745 / 100000) = of_int (b * 87745) / of_int 100000"
    by simp
  then show ?thesis
    by (simp only: floor_divide_of_int_eq)
qed

lemma label_budget_estimate [simp]: "lbl_budget \<noteq> lbl_estimated_price" "lbl_estimated_price \<noteq> lbl_budget"
  by (simp_all add: lbl_budget_def lbl_estimated_price_def)

lemma calc_min_bid_nums:
  assumes "map_of row lbl_budget = Some (Num budget)"
      and "map_of row lbl_estimated_price = Some (Num estim)"
  shows "calc_min_bid row =
           (let base = (if 0 < budget then budget else estim) in
            if 0 < base
            then (case float_of_int base of
                    Inl e \<Rightarrow> Inl e
                  | Inr d \<Rightarrow> int_of_float (float_mul d min_bid_rate))
            else Inr 0)"
  using assms by (simp add: calc_min_bid_def Let_def)

lemma float_of_int_exact: "\<bar>n\<bar> < 2 ^ 53 \<Longrightarrow> float_of_int n = Inr (Finite (of_int n))"
  by (simp add: float_of_int_def round_double_of_int)

text \<open>
  C1, as the code has it. The budget and the estimated price of a normalized bid row are
  integers, \<open>base\<close> is the budget when that is positive and the estimated price
  otherwise. The field is 0 when \<open>base \<le> 0\<close>, and it is \<open>floor(base * 0.87745)\<close> for
  every positive \<open>base\<close> below 1,253,076,105,051. The product is a binary64 product:
  from that base on it can round up to the next integer.
\<close>

theorem C1_min_bid:
  assumes "map_of row lbl_budget = Some (Num budget)"
      and "map_of row lbl_estimated_price = Some (Num estim)"
      and "base = (if 0 < budget then budget else estim)"
      and "base < 1253076105051"
  shows "calc_min_bid row =
           Inr (if 0 < base then \<lfloor>(of_int base :: rat) * (87745 / 100000)\<rfloor> else 0)"
proof (cases "0 < base")
  case False
  then show ?thesis
    using calc_min_bid_nums[OF assms(1,2)] assms(3) by (simp add: Let_def)
next
  case True
  have "\<bar>base\<bar> < 2 ^ 53" using True assms(4) by simp
  then have f: "float_of_int base = Inr (Finite (of_int base))"
    by (rule float_of_int_exact)
  obtain r where r: "round_double (of_int base * (7903366986072483 / 9007199254740992)) = Finite r"
      "0 \<le> r" "\<lfloor>r\<rfloor> = (base * 87745) div 100000"
    using rate_product[OF True assms(4)] by blast
  have "calc_min_bid row = int_of_float (float_mul (Finite (of_int base)) min_bid_rate)"
    using calc_min_bid_nums[OF assms(1,2)] assms(3) True f by (simp add: Let_def)
  also have "\<dots> = Inr (trunc_zero r)"
    using r(1) by (simp add: min_bid_rate_val)
  also have "trunc_zero r = (base * 87745) div 100000"
    using r(2,3) by (simp add: trunc_zero_def)
  finally have "calc_min_bid row = Inr ((base * 87745) div 100000)" .
  then show ?thesis unfolding floor_rate using True by simp
qed

theorem C1_min_bid_witness:
  "calc_min_bid [(lbl_budget, Num 1000000), (lbl_estimated_price, Num 0)] = Inr 877450
   \<and> calc_min_bid [(lbl_budget, Num 0), (lbl_estimated_price, Num 2000000)] = Inr 1754900
   \<and> calc_min_bid [(lbl_budget, Num 0), (lbl_estimated_price, Num 0)] = Inr 0"
proof -
  have "calc_min_bid [(lbl_budget, Num 1000000), (lbl_estimated_price, Num 0)]
        = Inr (if (0::int) < 1000000 then \<lfloor>(of_int 1000000 :: rat) * (87745 / 100000)\<rfloor> else 0)"
    by (rule C1_min_bid[where budget = 1000000 and estim = 0]) simp_all
  moreover have "calc_min_bid [(lbl_budget, Num 0), (lbl_estimated_price, Num 2000000)]
        = Inr (if (0::int) < 2000000 then \<lfloor>(of_int 2000000 :: rat) * (87745 / 100000)\<rfloor> else 0)"
    by (rule C1_min_bid[where budget = 0 and estim = 2000000]) simp_all
  moreover have "calc_min_bid [(lbl_budget, Num 0), (lbl_estimated_price, Num 0)]
        = Inr (if (0::int) < 0 then \<lfloor>(of_int 0 :: rat) * (87745 / 100000)\<rfloor> else 0)"
    by (rule C1_min_bid[where budget = 0 and estim = 0]) simp_all
  ultimately show ?thesis by (simp add: floor_rate)
qed

lemma round_at_bound:
  "round_double (1253076105051 * (7903366986072483 / 9007199254740992)) = Finite 1099511628377"
proof -
  have "round_double (1253076105051 * (7903366986072483 / 9007199254740992)) =
        Finite (of_int (rne (1253076105051 * (7903366986072483 / 9007199254740992) * 2 powi (52 - 40)))
                * 2 powi (40 - 52))"
    by (rule round_double_normal) simp_all
  moreover have "rne (1253076105051 * (7903366986072483 / 9007199254740992) * 2 powi (52 - 40))
                 = 4503599629832192"
    by (rule rne_eqI) simp_all
  ultimately show ?thesis by simp
qed

text \<open>
  C1 as stated fails at the budget 1,253,076,105,051: the exact product is
  1,099,511,628,376.99995, its floor ends in 376, and the field is 1,099,511,628,377.
\<close>

theorem C1_floor_counterexample:
  "calc_min_bid [(lbl_budget, Num 1253076105051), (lbl_estimated_price, Num 0)] = Inr 1099511628377
   \<and> \<lfloor>(of_int 1253076105051 :: rat) * (87745 / 100000)\<rfloor> = 1099511628376"
proof -
  have "float_of_int 1253076105051 = Inr (Finite (of_int 1253076105051))"
    by (rule float_of_int_exact) simp
  then have "calc_min_bid [(lbl_budget, Num 1253076105051), (lbl_estimated_price, Num 0)]
             = int_of_float (float_mul (Finite 1253076105051) min_bid_rate)"
    by (simp add: calc_min_bid_def)
  also have "float_mul (Finite 1253076105051) min_bid_rate = Finite 1099511628377"
    unfolding min_bid_rate_val float_mul.simps by (rule round_at_bound)
  also have "int_of_float (Finite 1099511628377) = Inr 1099511628377"
    by (simp add: trunc_zero_def)
  finally have "calc_min_bid [(lbl_budget, Num 1253076105051), (lbl_estimated_price, Num 0)]
                = Inr 1099511628377" .
  moreover have "\<lfloor>(of_int 1253076105051 :: rat) * (87745 / 100000)\<rfloor> = 1099511628376"
    unfolding floor_rate by simp
  ultimately show ?thesis by (rule conjI)
qed

subsection \<open>C9: money coercion\<close>

lemmas parse_defs =
  py_float_def py_int_def c_strip_def c_isspace_def strip_def py_isspace_def remove_char_def
  parse_sign_def lower_def lower_char_def parse_number_def split_first_def digits_value_def
  is_digit_def digit_val_def digit_table_def


















subsection \<open>C10: a negative amount is kept by the coercion and stopped by the guard\<close>

lemma py_float_minus_100: "py_float ''-100'' = Inr (Finite (- 100))"
proof -
  have "round_double (of_int (- 100)) = Finite (of_int (- 100))"
    by (rule round_double_of_int) simp
  then show ?thesis by (simp add: parse_defs)
qed

lemma product_minus_100:
  "float_mul (Finite (- 100)) min_bid_rate = Finite (- 6174505457869127 / 70368744177664)"
proof -
  have "round_double (- 100 * (7903366986072483 / 9007199254740992)) =
        Finite (of_int (rne (- 100 * (7903366986072483 / 9007199254740992) * 2 powi (52 - 6)))
                * 2 powi (6 - 52))"
    by (rule round_double_normal) simp_all
  moreover have "rne (- 100 * (7903366986072483 / 9007199254740992) * 2 powi (52 - 6))
                 = - 6174505457869127"
    by (rule rne_eqI) simp_all
  ultimately show ?thesis by (simp add: min_bid_rate_val)
qed

text \<open>
  C10. The string \<open>-100\<close> is a number, so \<open>parse_money\<close> gives -100, not 0. With both
  money columns at -100 the base is -100 and \<open>calc_min_bid\<close> gives 0: its guard
  \<open>base_price > 0\<close> fails. The product the guard keeps the code from would truncate to -87.
\<close>

theorem C10_negative_amount:
  "parse_money (Str ''-100'') = - 100
   \<and> calc_min_bid [(lbl_budget, Num (parse_money (Str ''-100''))),
                    (lbl_estimated_price, Num (parse_money (Str ''-100'')))] = Inr 0
   \<and> int_of_float (float_mul (Finite (of_int (parse_money (Str ''-100'')))) min_bid_rate) = Inr (- 87)"
proof -
  have p: "parse_money (Str ''-100'') = - 100"
    using py_float_minus_100
    by (simp add: parse_money_def strip_def remove_char_def py_isspace_def trunc_zero_def)
  have c: "calc_min_bid [(lbl_budget, Num (- 100)), (lbl_estimated_price, Num (- 100))] = Inr 0"
    by (simp add: calc_min_bid_def)
  have "\<lceil>(- 6174505457869127 / 70368744177664 :: rat)\<rceil> = - 87"
    by (rule ceiling_unique) simp_all
  then have t: "int_of_float (float_mul (Finite (- 100)) min_bid_rate) = Inr (- 87)"
    by (simp add: product_minus_100 trunc_zero_def)
  show ?thesis using c t by (simp add: p)
qed

subsection \<open>C2: when the pagination loop stops\<close>











subsection \<open>C8: the windows of the bid-notice splitter\<close>






subsection \<open>C5: which rows are urgent\<close>

lemma whole_days_le_7:
  "((a::int) div ns_day \<le> 7) = (a < 8 * ns_day)"
proof -
  define q where "q = a div 86400000000000"
  have "a = 86400000000000 * q + a mod 86400000000000" by (simp add: q_def)
  moreover have "0 \<le> a mod 86400000000000" "a mod 86400000000000 < 86400000000000" by simp_all
  ultimately have "(q \<le> 7) = (a < 691200000000000)" by linarith
  then show ?thesis by (simp add: q_def ns_day_def)
qed

text \<open>
  C5, as the code has it. For a row whose deadline cell is not empty and parses to a
  timestamp without time zone, the row is urgent exactly when the deadline is after
  \<open>now\<close> and the whole days of the difference are at most 7, that is, when the deadline
  is less than 8 days ahead.
\<close>

theorem C5_urgency:
  assumes "0 \<le> idx" "idx < int (length row)" "truthy (row ! nat idx)"
      and "to_datetime (py_str (row ! nat idx)) = Inr (Naive deadline)"
  shows "is_urgent to_datetime now idx row \<longleftrightarrow> now < deadline \<and> deadline < now + 8 * ns_day"
proof -
  have "is_urgent to_datetime now idx row \<longleftrightarrow> (deadline - now) div ns_day \<le> 7 \<and> now < deadline"
    using assms by (auto simp: is_urgent_def Let_def)
  also have "\<dots> \<longleftrightarrow> now < deadline \<and> deadline < now + 8 * ns_day"
    unfolding whole_days_le_7 by auto
  finally show ?thesis .
qed

theorem C5_urgency_witness:
  "is_urgent (\<lambda>s. Inr (Naive (7 * ns_day))) 0 0 [Str ''2026-11-10 10:00'']
   \<and> \<not> is_urgent (\<lambda>s. Inr (Naive (8 * ns_day))) 0 0 [Str ''2026-11-11 10:00'']
   \<and> \<not> is_urgent (\<lambda>s. Inr (Naive 0)) 0 0 [Str ''2026-11-03 10:00'']
   \<and> \<not> is_urgent (\<lambda>s. Inr (Naive (- ns_second))) 0 0 [Str ''2026-11-03 09:59:59'']"
  using C5_urgency[of 0 "[Str ''2026-11-10 10:00'']" "\<lambda>s. Inr (Naive (7 * ns_day))" "7 * ns_day" 0]
        C5_urgency[of 0 "[Str ''2026-11-11 10:00'']" "\<lambda>s. Inr (Naive (8 * ns_day))" "8 * ns_day" 0]
        C5_urgency[of 0 "[Str ''2026-11-03 10:00'']" "\<lambda>s. Inr (Naive 0)" 0 0]
        C5_urgency[of 0 "[Str ''2026-11-03 09:59:59'']" "\<lambda>s. Inr (Naive (- ns_second))" "- ns_second" 0]
  by (simp add: ns_day_def ns_second_def)

text \<open>
  C5 as stated fails one second past the boundary: a deadline 7 days and one second
  ahead has 7 whole days, and the row is urgent.
\<close>

theorem C5_boundary_counterexample:
  "is_urgent (\<lambda>s. Inr (Naive (7 * ns_day + ns_second))) 0 0 [Str ''2026-11-10 10:00:01'']"
  by (simp add: is_urgent_def ns_day_def ns_second_def)

subsection \<open>C7: the exclusion filter\<close>

lemma starts_with_iff: "starts_with sub s \<longleftrightarrow> (\<exists>post. s = sub @ post)"
proof
  assume "starts_with sub s"
  then have "s = sub @ drop (length sub) s"
    by (metis append_take_drop_id starts_with_def)
  then show "\<exists>post. s = sub @ post" by blast
next
  assume "\<exists>post. s = sub @ post"
  then show "starts_with sub s" by (auto simp: starts_with_def)
qed

lemma contains_iff: "contains sub s \<longleftrightarrow> (\<exists>pre post. s = pre @ sub @ post)"
proof (induction s)
  case Nil
  then show ?case by simp
next
  case (Cons c cs)
  show ?case
  proof
    assume "contains sub (c # cs)"
    then consider "starts_with sub (c # cs)" | "contains sub cs" by auto
    then show "\<exists>pre post. c # cs = pre @ sub @ post"
    proof cases
      case 1
      then obtain post where "c # cs = sub @ post" using starts_with_iff by blast
      then have "c # cs = [] @ sub @ post" by simp
      then show ?thesis by blast
    next
      case 2
      then obtain pre post where "cs = pre @ sub @ post" using Cons.IH by blast
      then have "c # cs = (c # pre) @ sub @ post" by simp
      then show ?thesis by blast
    qed
  next
    assume "\<exists>pre post. c # cs = pre @ sub @ post"
    then obtain pre post where e: "c # cs = pre @ sub @ post" by blast
    show "contains sub (c # cs)"
    proof (cases pre)
      case Nil
      then have "starts_with sub (c # cs)" using e starts_with_iff by auto
      then show ?thesis by simp
    next
      case (Cons a pre')
      then have "cs = pre' @ sub @ post" using e by simp
      then have "contains sub cs" using Cons.IH by blast
      then show ?thesis by simp
    qed
  qed
qed

text \<open>
  C7. With at least one exclusion keyword, the filter keeps the columns and keeps, in
  their order, exactly the rows whose title text has none of the keywords as a
  substring; the comparison is on the characters as they are.
\<close>

theorem C7_exclusion:
  assumes "exclude_keywords \<noteq> []" "target_col \<in> set (columns df)"
  shows "\<exists>df'. apply_exclusion_filter df target_col exclude_keywords = Inr df'
           \<and> columns df' = columns df
           \<and> rows df' = filter (\<lambda>r. \<not> (\<exists>exc\<in>set exclude_keywords. \<exists>pre post.
                                         py_str (cell_at r target_col) = pre @ exc @ post)) (rows df)"
proof (cases "df_empty df")
  case True
  then have "rows df = []" using assms(2) by (auto simp: df_empty_def)
  then show ?thesis using True by (simp add: apply_exclusion_filter_def)
next
  case False
  then show ?thesis
    using assms by (simp add: apply_exclusion_filter_def list_ex_iff contains_iff)
qed

theorem C7_exclusion_witness:
  "\<exists>df'. apply_exclusion_filter
            \<lparr>columns = [''title''], rows = [[(''title'', Str ''X-ray scanner'')], [(''title'', Str ''X-RAY scanner'')]]\<rparr>
            ''title'' [''X-ray''] = Inr df'
         \<and> columns df' = [''title'']
         \<and> rows df' = [[(''title'', Str ''X-RAY scanner'')]]"
proof -
  show ?thesis
    using C7_exclusion[of "[''X-ray'']" "''title''"
        "\<lparr>columns = [''title''], rows = [[(''title'', Str ''X-ray scanner'')], [(''title'', Str ''X-RAY scanner'')]]\<rparr>",
        unfolded contains_iff[symmetric]]
    by (simp add: cell_at_def starts_with_def)
qed

subsection \<open>C4: an upper-cased tag in the R&D processor\<close>


subsection \<open>C6: a row with an empty title in the R&D processor\<close>

text \<open>
  C6 does not hold for the R&D processor: it has no step that drops the rows with a
  blank title, so without inclusion keywords a record with an empty \<open>subject\<close> stays in
  the table. The order-plan processor drops the row with the empty name.
\<close>

theorem C6_rd_keeps_blank_title:
  "(\<exists>df. process_rd_for_excel
            (drop_duplicates (DataFrame [[(''subject'', []), (''deptName'', ''MSIT'')]])) [] [] = Inr df
         \<and> map (\<lambda>r. (cell_at r lbl_rd_title, cell_at r lbl_notice_org)) (rows df) = [(Str [], Str ''MSIT'')])
   \<and> (\<exists>df. process_order_for_excel
            (drop_duplicates (DataFrame [[(''bizNm'', []), (''orderInsttNm'', ''MSIT'')]])) [] = Inr df
         \<and> rows df = [])"
proof -
  have df: "drop_duplicates (DataFrame [[(''subject'', []), (''deptName'', ''MSIT'')]])
            = \<lparr>columns = [''subject'', ''deptName''],
               rows = [[(''subject'', Str []), (''deptName'', Str ''MSIT'')]]\<rparr>"
    by (simp add: drop_duplicates_def DataFrame_def keep_first_def)
  have lbl: "lbl_rd_title \<noteq> lbl_notice_org" "lbl_rd_title \<noteq> lbl_no" "lbl_notice_org \<noteq> lbl_no"
    by (simp_all add: lbl_rd_title_def lbl_notice_org_def lbl_no_def)
  have 1: "\<exists>df. process_rd_for_excel
            (drop_duplicates (DataFrame [[(''subject'', []), (''deptName'', ''MSIT'')]])) [] [] = Inr df
         \<and> map (\<lambda>r. (cell_at r lbl_rd_title, cell_at r lbl_notice_org)) (rows df) = [(Str [], Str ''MSIT'')]"
    using lbl
    by (simp add: df process_rd_for_excel_def df_empty_def rd_col_map_def Let_def
                  sort_values_def number_rows_def cell_at_def)
  have df2: "drop_duplicates (DataFrame [[(''bizNm'', []), (''orderInsttNm'', ''MSIT'')]])
            = \<lparr>columns = [''bizNm'', ''orderInsttNm''],
               rows = [[(''bizNm'', Str []), (''orderInsttNm'', Str ''MSIT'')]]\<rparr>"
    by (simp add: drop_duplicates_def DataFrame_def keep_first_def)
  have f0: "py_float ''0'' = Inr (Finite 0)"
    by (simp add: parse_defs round_double_def)
  have am: "order_amount [(''bizNm'', Str []), (''orderInsttNm'', Str ''MSIT'')] = Inr 0"
    by (simp add: order_amount_def get_val_def row_lower_def lower_def lower_char_def
                  remove_char_def f0 trunc_zero_def)
  have nm: "get_clean_val [(''bizNm'', Str []), (''orderInsttNm'', Str ''MSIT'')]
              [''bizNm'', ''prdctClsfNoNm'', ''prdctClsfcNoNm'', ''cntrctNm''] = []"
    by (simp add: get_clean_val_def get_val_def row_lower_def lower_def lower_char_def strip_def)
  have lp: "lbl_project_name \<noteq> lbl_service_class" "lbl_project_name \<noteq> lbl_work_class"
           "lbl_project_name \<noteq> lbl_order_period"
    by (simp_all add: lbl_project_name_def lbl_service_class_def lbl_work_class_def lbl_order_period_def)
  have "\<exists>r. order_row [(''bizNm'', Str []), (''orderInsttNm'', Str ''MSIT'')] = Inr r
            \<and> cell_at r lbl_project_name = Str []"
    using lp by (simp add: order_row_def am nm cell_at_def)
  then obtain r where r: "order_row [(''bizNm'', Str []), (''orderInsttNm'', Str ''MSIT'')] = Inr r"
      "cell_at r lbl_project_name = Str []"
    by blast
  have 2: "\<exists>df. process_order_for_excel
            (drop_duplicates (DataFrame [[(''bizNm'', []), (''orderInsttNm'', ''MSIT'')]])) [] = Inr df
         \<and> rows df = []"
    by (simp add: df2 process_order_for_excel_def df_empty_def r drop_blank_def strip_def
                  sort_values_def number_rows_def)
  from 1 2 show ?thesis by simp
qed

subsection \<open>C3: a malformed amount in the order-plan processor\<close>

lemma py_float_abc: "py_float ''abc'' = Inl ValueError"
  by (simp add: parse_defs)

lemma get_val_amount_abc:
  "get_val [(''bizNm'', Str ''road''), (''sumOrderAmt'', Str ''abc'')] [''sumOrderAmt'', ''totlAmt''] ''0'' = ''abc''"
  by (simp add: get_val_def row_lower_def lower_def lower_char_def strip_def py_isspace_def)

text \<open>
  C3 does not hold for the order-plan processor: its amount column is computed by
  \<open>int(float(\<dots>))\<close> outside any \<open>try\<close>, so the amount \<open>abc\<close> raises a \<open>ValueError\<close>
  where \<open>parse_money\<close>, which the two sibling processors use, gives 0.
\<close>

theorem C3_order_amount_raises:
  "process_order_for_excel
     (drop_duplicates (DataFrame [[(''bizNm'', ''road''), (''sumOrderAmt'', ''abc'')]])) [] = Inl ValueError
   \<and> parse_money (Str ''abc'') = 0"
proof -
  have df: "drop_duplicates (DataFrame [[(''bizNm'', ''road''), (''sumOrderAmt'', ''abc'')]])
            = \<lparr>columns = [''bizNm'', ''sumOrderAmt''],
               rows = [[(''bizNm'', Str ''road''), (''sumOrderAmt'', Str ''abc'')]]\<rparr>"
    by (simp add: drop_duplicates_def DataFrame_def keep_first_def)
  have "order_amount [(''bizNm'', Str ''road''), (''sumOrderAmt'', Str ''abc'')] = Inl ValueError"
    by (simp add: order_amount_def get_val_amount_abc remove_char_def py_float_abc)
  then have "order_row [(''bizNm'', Str ''road''), (''sumOrderAmt'', Str ''abc'')] = Inl ValueError"
    by (simp add: order_row_def)
  then have 1: "process_order_for_excel
     (drop_duplicates (DataFrame [[(''bizNm'', ''road''), (''sumOrderAmt'', ''abc'')]])) [] = Inl ValueError"
    by (simp add: df process_order_for_excel_def df_empty_def)
  have 2: "parse_money (Str ''abc'') = 0"
    by (simp add: parse_money_def remove_char_def strip_def py_isspace_def py_float_abc)
  from 1 2 show ?thesis by simp
qed

end
